theory Spec2Isabelle
  imports Complex_Main
begin

section \<open>Numbers, strings and the theme\<close>

text \<open>
  The engine computes with JavaScript numbers. They are modelled as \<^typ>\<open>real\<close>:
  the arithmetic of the source (sums, products, comparisons) is taken exactly, and the
  rounding of IEEE doubles is outside the model. A JavaScript string is modelled as a
  \<^typ>\<open>string\<close>. The engine compares a character with the star and with the space
  only, so a character outside ASCII may stand as the bytes of its UTF-8 form. An RGB
  array of a theme is a triple.
\<close>

type_synonym color = "nat \<times> nat \<times> nat"

text \<open>
  The theme objects of \<^verbatim>\<open>src/themes\<close>. Record fields share one name space, so the
  keys of the nested objects carry the name of their object: \<^verbatim>\<open>theme.fonts.h1\<close> is
  \<open>fonts_h1 (fonts theme)\<close>. Only the keys the engine reads are fields. A key a theme may
  leave out (\<^verbatim>\<open>prefixGreen\<close>, \<^verbatim>\<open>prefixGray\<close>, \<^verbatim>\<open>bulletColor\<close>,
  \<^verbatim>\<open>images\<close>) is an option; every other key is required.
\<close>

record spacing =
  spacing_h1MarginBottom :: real
  spacing_subHeaderMarginBottom :: real
  spacing_h2MarginTop :: real
  spacing_h2MarginBottom :: real
  spacing_h3MarginTop :: real
  spacing_jobHeaderMarginBottom :: real
  spacing_ulMarginBottom :: real
  spacing_liMarginBottom :: real
  spacing_sectionMarginBottom :: real

record fonts =
  fonts_h1 :: real
  fonts_subHeader :: real
  fonts_h2 :: real
  fonts_h3 :: real
  fonts_li :: real
  fonts_body :: real

record lineHeights =
  lineHeights_li :: real
  lineHeights_body :: real

record colors =
  colors_bg :: color
  colors_name :: color
  colors_role :: color
  colors_heading :: color
  colors_text :: color
  colors_prefixGreen :: "color option"
  colors_prefixGray :: "color option"
  colors_bulletColor :: "color option"

record prefixes =
  prefixes_h1 :: string
  prefixes_subHeader :: string
  prefixes_h2 :: string
  prefixes_h3 :: string
  prefixes_jobMeta :: string
  prefixes_bullet :: string

record images =
  images_headerBar :: string
  images_sectionBar :: string
  images_headerBarHeight :: real
  images_sectionBarWidth :: real
  images_sectionBarHeight :: real
  images_sectionBarOffset :: real

record theme =
  name :: string
  margin :: real
  spacing :: spacing
  fonts :: fonts
  lineHeights :: lineHeights
  colors :: colors
  prefixes :: prefixes
  images :: "images option"

section \<open>Unit conversion\<close>

text \<open>The constants and the three helpers \<^verbatim>\<open>px\<close>, \<^verbatim>\<open>pt\<close>, \<^verbatim>\<open>lineHeight\<close>.\<close>

definition PT_TO_MM :: real where
  "PT_TO_MM = 25.4 / 72"

definition PX_TO_MM :: real where
  "PX_TO_MM = 25.4 / 96"

definition px :: "theme \<Rightarrow> real \<Rightarrow> real" where
  "px theme v = v * PX_TO_MM"

definition pt :: "theme \<Rightarrow> real \<Rightarrow> real" where
  "pt theme v = v * PT_TO_MM"

definition lineHeight :: "theme \<Rightarrow> real \<Rightarrow> real \<Rightarrow> real" where
  "lineHeight theme fontSize lh = fontSize * lh * PT_TO_MM"

section \<open>The inline markup parser\<close>

text \<open>
  \<^verbatim>\<open>parseInlineBold\<close>. The loop reads the text from index \<open>i\<close>; the model recurses on
  the rest of the text from \<open>i\<close> on, with the loop's variables \<open>segments\<close>,
  \<open>current\<close> and \<open>inBold\<close> as arguments. \<^verbatim>\<open>text[i + 1]\<close> past the end is
  \<^verbatim>\<open>undefined\<close>, which is not a star: a lone last star is an ordinary character.
  \<^verbatim>\<open>if (current)\<close> holds when the buffer is not empty.
\<close>

record segment =
  seg_text :: string
  seg_bold :: bool

fun parseLoop :: "string \<Rightarrow> segment list \<Rightarrow> string \<Rightarrow> bool \<Rightarrow> segment list \<times> string \<times> bool" where
  "parseLoop [] segments current inBold = (segments, current, inBold)"
| "parseLoop [c] segments current inBold = parseLoop [] segments (current @ [c]) inBold"
| "parseLoop (c # d # rest) segments current inBold =
     (if c = CHR ''*'' \<and> d = CHR ''*'' then
        parseLoop rest
          (if current \<noteq> [] then segments @ [\<lparr>seg_text = current, seg_bold = inBold\<rparr>] else segments)
          (if current \<noteq> [] then [] else current)
          (\<not> inBold)
      else parseLoop (d # rest) segments (current @ [c]) inBold)"

definition parseInlineBold :: "string \<Rightarrow> segment list" where
  "parseInlineBold input =
     (case parseLoop input [] [] False of
        (segments, current, inBold) \<Rightarrow>
          if current \<noteq> [] then segments @ [\<lparr>seg_text = current, seg_bold = inBold\<rparr>] else segments)"

text \<open>
  The vocabulary of the specification for the parser: the left-to-right reading of a text
  as delimiters and plain characters, the number of delimiters, the text with every
  delimiter removed, and the text after the last delimiter.
\<close>

datatype token = Delim | Plain char

fun tokens :: "string \<Rightarrow> token list" where
  "tokens [] = []"
| "tokens [c] = [Plain c]"
| "tokens (c # d # rest) =
     (if c = CHR ''*'' \<and> d = CHR ''*'' then Delim # tokens rest else Plain c # tokens (d # rest))"

fun plainText :: "token list \<Rightarrow> string" where
  "plainText [] = []"
| "plainText (Delim # ts) = plainText ts"
| "plainText (Plain c # ts) = c # plainText ts"

definition delimCount :: "string \<Rightarrow> nat" where
  "delimCount input = length (filter (\<lambda>k. k = Delim) (tokens input))"

definition stripDelims :: "string \<Rightarrow> string" where
  "stripDelims input = plainText (tokens input)"

definition afterLast :: "token list \<Rightarrow> token list" where
  "afterLast ts = rev (takeWhile (\<lambda>k. k \<noteq> Delim) (rev ts))"

definition trailingText :: "string \<Rightarrow> string" where
  "trailingText input = plainText (afterLast (tokens input))"

definition segmentTexts :: "segment list \<Rightarrow> string" where
  "segmentTexts segs = concat (map seg_text segs)"

section \<open>The document backend\<close>

text \<open>
  The engine draws by calling the methods of a jsPDF document. The document is modelled
  as the list of the calls made so far, oldest first: one constructor of \<open>prim\<close> per
  method the engine calls, with the arguments of the call.

  The first argument of the three text constructors is not an argument of
  \<^verbatim>\<open>doc.text\<close>: it records which statement of the source issued the call. \<open>Ghost\<close>
  marks the calls the source introduces as ghost markdown (the tokens \<^verbatim>\<open># \<close>,
  \<^verbatim>\<open>## \<close>, \<^verbatim>\<open>### \<close>, \<^verbatim>\<open>**Contact:** \<close>, \<^verbatim>\<open>- \<close> and the
  \<^verbatim>\<open>**\<close> of the inline renderer), \<open>Decoration\<close> the theme's prefixes and bullet
  character, \<open>Content\<close> the texts of the form data, each with its kind: the name of
  the header, the contact line, the title of a section, the company of a job, the text of
  a bullet, the summary, the title and the period of a role, and a word of the inline
  renderer. The mark has no influence on what is computed.
\<close>

datatype item =
    Heading | ContactLine | TitleLine | CompanyName | BulletBody
  | SummaryBody | JobTitle | JobPeriod | InlineWord

datatype mark = Ghost | Decoration | Content item

datatype prim =
    AddFileToVFS string string
  | AddFont string string string
  | SetFontSize real
  | SetFont string string
  | SetTextColor color
  | SetFillColor color
  | SetDrawColor color
  | SetLineWidth real
  | Text mark string real real
  | TextLines mark "string list" real real
  | TextAligned mark string real real string
  | Rect real real real real string
  | Line real real real real
  | Triangle real real real real real real string
  | AddImage string string real real real real
  | AddPage
  | Save string

text \<open>
  What the engine reads back from its surroundings. The two measuring methods of the
  document answer from the document's state, so they take the calls made so far.
  \<^verbatim>\<open>toUpperCase\<close> is the string method of the platform. The two loaders stand for
  \<^verbatim>\<open>loadFontAsBase64\<close> and \<^verbatim>\<open>loadImageAsBase64\<close>, whose result depends on
  the network only: \<open>None\<close> is a failed fetch (an exception of the first, the
  \<^verbatim>\<open>null\<close> of the second).
\<close>

record backend =
  getTextWidth :: "prim list \<Rightarrow> string \<Rightarrow> real"
  splitTextToSize :: "prim list \<Rightarrow> string \<Rightarrow> real \<Rightarrow> string list"
  toUpperCase :: "string \<Rightarrow> string"
  loadFontAsBase64 :: "string \<Rightarrow> string option"
  loadImageAsBase64 :: "string \<Rightarrow> string option"

section \<open>The form data\<close>

text \<open>
  \<^verbatim>\<open>formData.sections\<close>: a section object is told apart by its \<^verbatim>\<open>type\<close>; a type
  the engine has no branch for is \<open>OtherSection\<close>. A field that may be missing is an
  option; \<open>truthy\<close> is the test JavaScript applies to it in a condition.
\<close>

record role =
  role_title :: "string option"
  role_period :: "string option"
  role_bullets :: "string list"

record job =
  job_company :: "string option"
  job_roles :: "role list"

datatype formSection =
    HeaderSection string "string option"
  | SummarySection string
  | BulletSection string "string list"
  | ExperienceSection string "job list"
  | OtherSection

definition truthy :: "string option \<Rightarrow> bool" where
  "truthy v = (case v of None \<Rightarrow> False | Some str \<Rightarrow> str \<noteq> [])"

section \<open>The cursor and the page break\<close>

text \<open>
  The state of one run of \<^verbatim>\<open>generatePDF\<close>: the variable \<^verbatim>\<open>y\<close> and the document.
  The page index is kept by the document: it is the number of \<^verbatim>\<open>addPage\<close> calls.
\<close>

record render =
  cursorY :: real
  doc :: "prim list"

definition emit :: "prim \<Rightarrow> render \<Rightarrow> render" where
  "emit p s = s\<lparr>doc := doc s @ [p]\<rparr>"

definition advance :: "real \<Rightarrow> render \<Rightarrow> render" where
  "advance d s = s\<lparr>cursorY := cursorY s + d\<rparr>"

definition pageIndex :: "render \<Rightarrow> nat" where
  "pageIndex s = length (filter (\<lambda>p. p = AddPage) (doc s))"

definition pageWidth :: real where
  "pageWidth = 210"

definition pageHeight :: real where
  "pageHeight = 297"

definition addNewPage :: "theme \<Rightarrow> render \<Rightarrow> render" where
  "addNewPage th s =
     (let s = emit AddPage s;
          s = emit (SetFillColor (colors_bg (colors th))) s;
          s = emit (Rect 0 0 pageWidth pageHeight ''F'') s
      in s\<lparr>cursorY := margin th\<rparr>)"

definition checkPageOverflow :: "theme \<Rightarrow> real \<Rightarrow> render \<Rightarrow> bool \<times> render" where
  "checkPageOverflow th requiredSpace s =
     (if cursorY s + requiredSpace > pageHeight - margin th
      then (True, addNewPage th s)
      else (False, s))"

section \<open>The vector bullets\<close>

text \<open>
  The diamond of the Creative Designer theme. The source computes it from three
  constants \<^verbatim>\<open>cx\<close>, \<^verbatim>\<open>cy\<close> and \<^verbatim>\<open>size\<close> (here \<open>sz\<close>), which are the arguments here; the
  block stands twice in the source, for the bullets of a section and of a role.
\<close>

type_synonym point = "real \<times> real"

definition topPoints :: "real \<Rightarrow> real \<Rightarrow> real \<Rightarrow> point list" where
  "topPoints cx cy sz =
     [(cx, cy - sz), (cx - sz * 0.3, cy - sz * 0.3), (cx, cy), (cx + sz * 0.3, cy - sz * 0.3)]"

definition rightPoints :: "real \<Rightarrow> real \<Rightarrow> real \<Rightarrow> point list" where
  "rightPoints cx cy sz =
     [(cx + sz, cy), (cx + sz * 0.3, cy - sz * 0.3), (cx, cy), (cx + sz * 0.3, cy + sz * 0.3)]"

definition bottomPoints :: "real \<Rightarrow> real \<Rightarrow> real \<Rightarrow> point list" where
  "bottomPoints cx cy sz =
     [(cx, cy + sz), (cx + sz * 0.3, cy + sz * 0.3), (cx, cy), (cx - sz * 0.3, cy + sz * 0.3)]"

definition leftPoints :: "real \<Rightarrow> real \<Rightarrow> real \<Rightarrow> point list" where
  "leftPoints cx cy sz =
     [(cx - sz, cy), (cx - sz * 0.3, cy + sz * 0.3), (cx, cy), (cx - sz * 0.3, cy - sz * 0.3)]"

definition petalTriangles :: "point list \<Rightarrow> prim list" where
  "petalTriangles petal =
     [Triangle (fst (petal ! 0)) (snd (petal ! 0)) (fst (petal ! 1)) (snd (petal ! 1))
        (fst (petal ! 2)) (snd (petal ! 2)) ''F'',
      Triangle (fst (petal ! 0)) (snd (petal ! 0)) (fst (petal ! 3)) (snd (petal ! 3))
        (fst (petal ! 2)) (snd (petal ! 2)) ''F'']"

definition diamondTriangles :: "real \<Rightarrow> real \<Rightarrow> real \<Rightarrow> prim list" where
  "diamondTriangles cx cy sz =
     concat (map petalTriangles
       [topPoints cx cy sz, rightPoints cx cy sz, bottomPoints cx cy sz, leftPoints cx cy sz])"

definition emitAll :: "prim list \<Rightarrow> render \<Rightarrow> render" where
  "emitAll ps s = foldl (\<lambda>s p. emit p s) s ps"

text \<open>
  The vocabulary of the specification for the diamond: a quarter turn about the anchor
  (the page's \<open>y\<close> axis points down, so the turn takes the top tip to the right tip),
  applied to a point and to the vertices of a triangle, and the two triangles of the top
  petal as the specification writes them.
\<close>

definition quarterTurn :: "point \<Rightarrow> point \<Rightarrow> point" where
  "quarterTurn c p = (fst c - (snd p - snd c), snd c + (fst p - fst c))"

fun turnTriangle :: "point \<Rightarrow> nat \<Rightarrow> prim \<Rightarrow> prim" where
  "turnTriangle c n (Triangle x1 y1 x2 y2 x3 y3 style) =
     Triangle (fst (((quarterTurn c) ^^ n) (x1, y1))) (snd (((quarterTurn c) ^^ n) (x1, y1)))
       (fst (((quarterTurn c) ^^ n) (x2, y2))) (snd (((quarterTurn c) ^^ n) (x2, y2)))
       (fst (((quarterTurn c) ^^ n) (x3, y3))) (snd (((quarterTurn c) ^^ n) (x3, y3))) style"
| "turnTriangle c n p = p"

definition topTriangleA :: "real \<Rightarrow> real \<Rightarrow> real \<Rightarrow> prim" where
  "topTriangleA cx cy sz =
     Triangle cx (cy - sz) (cx - 0.3 * sz) (cy - 0.3 * sz) cx cy ''F''"

definition topTriangleB :: "real \<Rightarrow> real \<Rightarrow> real \<Rightarrow> prim" where
  "topTriangleB cx cy sz =
     Triangle cx (cy - sz) (cx + 0.3 * sz) (cy - 0.3 * sz) cx cy ''F''"

section \<open>The inline renderer\<close>

text \<open>
  \<^verbatim>\<open>renderInlineBold\<close>. Its state is the document and the two variables
  \<^verbatim>\<open>currentX\<close> and \<^verbatim>\<open>currentY\<close>. \<open>splitSpaces\<close> is \<^verbatim>\<open>split(' ')\<close>: one
  more piece than there are spaces, empty pieces included. \<open>renderWord\<close> is the body of
  the inner \<^verbatim>\<open>forEach\<close>, with the number of words of the segment and the index of
  the word; \<open>wrapWord\<close> is its test for the line break, \<open>marker\<close> the two
  conditional \<^verbatim>\<open>**\<close> calls and \<open>placeWord\<close> the call that draws the word. The parameter
  \<^verbatim>\<open>maxWidth\<close> is not read by the source.
\<close>

fun splitSpaces :: "string \<Rightarrow> string list" where
  "splitSpaces [] = [[]]"
| "splitSpaces (c # cs) =
     (if c = CHR '' '' then [] # splitSpaces cs
      else (case splitSpaces cs of [] \<Rightarrow> [[c]] | w # ws \<Rightarrow> (c # w) # ws))"

record flow =
  currentX :: real
  currentY :: real
  flowDoc :: "prim list"

definition put :: "prim \<Rightarrow> flow \<Rightarrow> flow" where
  "put p f = f\<lparr>flowDoc := flowDoc f @ [p]\<rparr>"

definition wrapWord :: "theme \<Rightarrow> real \<Rightarrow> real \<Rightarrow> real \<Rightarrow> flow \<Rightarrow> flow" where
  "wrapWord th x rightEdge textWidth f =
     (if currentX f + textWidth > rightEdge \<and> currentX f > x
      then f\<lparr>currentY := currentY f + lineHeight th (fonts_li (fonts th)) (lineHeights_li (lineHeights th)),
             currentX := x\<rparr>
      else f)"

definition marker :: "theme \<Rightarrow> bool \<Rightarrow> flow \<Rightarrow> flow" where
  "marker th cond f =
     (if cond
      then put (Text Ghost ''**'' (currentX f) (currentY f)) (put (SetTextColor (colors_bg (colors th))) f)
      else f)"

definition placeWord :: "theme \<Rightarrow> string \<Rightarrow> real \<Rightarrow> flow \<Rightarrow> flow" where
  "placeWord th textToRender textWidth f =
     (let f = put (SetTextColor (colors_text (colors th))) f;
          f = put (Text (Content InlineWord) textToRender (currentX f) (currentY f)) f
      in f\<lparr>currentX := currentX f + textWidth\<rparr>)"

definition renderWord ::
  "backend \<Rightarrow> theme \<Rightarrow> string \<Rightarrow> real \<Rightarrow> real \<Rightarrow> bool \<Rightarrow> nat \<Rightarrow> flow \<Rightarrow> nat \<times> string \<Rightarrow> flow" where
  "renderWord env th fontFamily x rightEdge bold nWords f iw =
     (let idx = fst iw; word = snd iw;
          textToRender = (if idx < nWords - 1 then word @ '' '' else word);
          font = (if bold then ''bold'' else ''normal'');
          f = put (SetFont fontFamily font) f;
          textWidth = getTextWidth env (flowDoc f) textToRender;
          f = wrapWord th x rightEdge textWidth f;
          f = marker th (bold \<and> idx = 0) f;
          f = placeWord th textToRender textWidth f;
          f = marker th (bold \<and> idx = nWords - 1) f
      in f)"

definition renderSegment ::
  "backend \<Rightarrow> theme \<Rightarrow> string \<Rightarrow> real \<Rightarrow> real \<Rightarrow> flow \<Rightarrow> segment \<Rightarrow> flow" where
  "renderSegment env th fontFamily x rightEdge f seg =
     (let ws = splitSpaces (seg_text seg)
      in foldl (renderWord env th fontFamily x rightEdge (seg_bold seg) (length ws)) f
           (enumerate 0 ws))"

definition renderSegments ::
  "backend \<Rightarrow> theme \<Rightarrow> string \<Rightarrow> real \<Rightarrow> real \<Rightarrow> segment list \<Rightarrow> flow \<Rightarrow> flow" where
  "renderSegments env th fontFamily x rightEdge segs f =
     foldl (renderSegment env th fontFamily x rightEdge) f segs"

definition renderInlineBold ::
  "backend \<Rightarrow> prim list \<Rightarrow> string \<Rightarrow> real \<Rightarrow> real \<Rightarrow> theme \<Rightarrow> real \<Rightarrow> real \<Rightarrow> real \<Rightarrow> string
     \<Rightarrow> real \<times> prim list" where
  "renderInlineBold env d input x y th maxWidth pgWidth mrg fontFamily =
     (let segments = parseInlineBold input;
          rightEdge = pgWidth - mrg;
          f = renderSegments env th fontFamily x rightEdge segments
                \<lparr>currentX = x, currentY = y, flowDoc = d\<rparr>
      in (currentY f, flowDoc f))"

text \<open>
  The text flow as the specification words it, for comparison with the source: the state
  is the line under construction (the widths of the words placed on it so far) and its
  \<open>y\<close>. A word starts where the words before it on the line end. The line is broken
  before a word when the word would cross the right edge and the line already contains
  content, that is, a word of positive width.
\<close>

record specFlow =
  lineWords :: "real list"
  lineY :: real
  specDoc :: "prim list"

definition specPut :: "prim \<Rightarrow> specFlow \<Rightarrow> specFlow" where
  "specPut p f = f\<lparr>specDoc := specDoc f @ [p]\<rparr>"

definition lineHasContent :: "specFlow \<Rightarrow> bool" where
  "lineHasContent f = list_ex (\<lambda>w. 0 < w) (lineWords f)"

definition lineEnd :: "real \<Rightarrow> specFlow \<Rightarrow> real" where
  "lineEnd x f = x + sum_list (lineWords f)"

definition specBreak :: "theme \<Rightarrow> real \<Rightarrow> real \<Rightarrow> real \<Rightarrow> specFlow \<Rightarrow> specFlow" where
  "specBreak th x rightEdge textWidth f =
     (if lineEnd x f + textWidth > rightEdge \<and> lineHasContent f
      then f\<lparr>lineY := lineY f + lineHeight th (fonts_li (fonts th)) (lineHeights_li (lineHeights th)),
             lineWords := []\<rparr>
      else f)"

definition specMarker :: "theme \<Rightarrow> real \<Rightarrow> bool \<Rightarrow> specFlow \<Rightarrow> specFlow" where
  "specMarker th x cond f =
     (if cond
      then specPut (Text Ghost ''**'' (lineEnd x f) (lineY f)) (specPut (SetTextColor (colors_bg (colors th))) f)
      else f)"

definition specPlace :: "theme \<Rightarrow> real \<Rightarrow> string \<Rightarrow> real \<Rightarrow> specFlow \<Rightarrow> specFlow" where
  "specPlace th x textToRender textWidth f =
     (let f = specPut (SetTextColor (colors_text (colors th))) f;
          f = specPut (Text (Content InlineWord) textToRender (lineEnd x f) (lineY f)) f
      in f\<lparr>lineWords := lineWords f @ [textWidth]\<rparr>)"

definition specWord ::
  "backend \<Rightarrow> theme \<Rightarrow> string \<Rightarrow> real \<Rightarrow> real \<Rightarrow> bool \<Rightarrow> nat \<Rightarrow> specFlow \<Rightarrow> nat \<times> string \<Rightarrow> specFlow" where
  "specWord env th fontFamily x rightEdge bold nWords f iw =
     (let idx = fst iw; word = snd iw;
          textToRender = (if idx < nWords - 1 then word @ '' '' else word);
          f = specPut (SetFont fontFamily (if bold then ''bold'' else ''normal'')) f;
          textWidth = getTextWidth env (specDoc f) textToRender;
          f = specBreak th x rightEdge textWidth f;
          f = specMarker th x (bold \<and> idx = 0) f;
          f = specPlace th x textToRender textWidth f;
          f = specMarker th x (bold \<and> idx = nWords - 1) f
      in f)"

definition specSegment ::
  "backend \<Rightarrow> theme \<Rightarrow> string \<Rightarrow> real \<Rightarrow> real \<Rightarrow> specFlow \<Rightarrow> segment \<Rightarrow> specFlow" where
  "specSegment env th fontFamily x rightEdge f seg =
     (let ws = splitSpaces (seg_text seg)
      in foldl (specWord env th fontFamily x rightEdge (seg_bold seg) (length ws)) f
           (enumerate 0 ws))"

definition specSegments ::
  "backend \<Rightarrow> theme \<Rightarrow> string \<Rightarrow> real \<Rightarrow> real \<Rightarrow> segment list \<Rightarrow> specFlow \<Rightarrow> specFlow" where
  "specSegments env th fontFamily x rightEdge segs f =
     foldl (specSegment env th fontFamily x rightEdge) f segs"

text \<open>The words placed by a run: the \<open>Content\<close> texts of a list of calls, and their bound.\<close>

fun wordWithin :: "real \<Rightarrow> prim \<Rightarrow> bool" where
  "wordWithin rightEdge (Text (Content k) str wx wy) = (wx \<le> rightEdge)"
| "wordWithin rightEdge p = True"

section \<open>The composer\<close>

text \<open>
  \<^verbatim>\<open>generatePDF\<close>, from the page background to \<^verbatim>\<open>doc.save\<close>. The source is one
  function; the model names its blocks, in the order of the source, and each block is the
  sequence of the calls and of the updates of \<^verbatim>\<open>y\<close> it makes. A block that stands
  twice in the source (the bullet, the section bar, the title text and the prefix) is one
  definition. \<open>textAt\<close>, \<open>linesAt\<close>, \<open>textAlignedAt\<close> and \<open>lineAt\<close> are the calls
  that draw at the current \<^verbatim>\<open>y\<close>. \<open>orElse\<close> is \<^verbatim>\<open>||\<close> on a colour that may be
  missing.
\<close>

definition textAt :: "mark \<Rightarrow> string \<Rightarrow> real \<Rightarrow> render \<Rightarrow> render" where
  "textAt mk str x s = emit (Text mk str x (cursorY s)) s"

definition linesAt :: "mark \<Rightarrow> string list \<Rightarrow> real \<Rightarrow> render \<Rightarrow> render" where
  "linesAt mk strs x s = emit (TextLines mk strs x (cursorY s)) s"

definition textAlignedAt :: "mark \<Rightarrow> string \<Rightarrow> real \<Rightarrow> string \<Rightarrow> render \<Rightarrow> render" where
  "textAlignedAt mk str x align s = emit (TextAligned mk str x (cursorY s) align) s"

definition lineAt :: "real \<Rightarrow> real \<Rightarrow> render \<Rightarrow> render" where
  "lineAt x1 x2 s = emit (Line x1 (cursorY s) x2 (cursorY s)) s"

definition orElse :: "'a option \<Rightarrow> 'a \<Rightarrow> 'a" where
  "orElse v d = (case v of None \<Rightarrow> d | Some c \<Rightarrow> c)"

definition themeFonts :: "string \<Rightarrow> string option" where
  "themeFonts n =
     (if n = ''Modern Professional'' then Some ''Inter''
      else if n = ''Classic Minimalist'' then Some ''Inter''
      else if n = ''Compact Executive'' then Some ''JetBrainsMono''
      else if n = ''Terminal/Hacker'' then Some ''JetBrainsMono''
      else if n = ''Creative Designer'' then Some ''Inter''
      else if n = ''Creative Designer 2'' then Some ''Inter''
      else None)"

text \<open>
  \<^verbatim>\<open>drawCompactSectionBox\<close>, a function of its own in the source: it takes the
  document and \<^verbatim>\<open>y\<close> as arguments.
\<close>

definition drawCompactSectionBox ::
  "prim list \<Rightarrow> string \<Rightarrow> real \<Rightarrow> real \<Rightarrow> theme \<Rightarrow> string \<Rightarrow> real \<Rightarrow> real \<Rightarrow> prim list" where
  "drawCompactSectionBox d str x y th fontFamily pgWidth mrg =
     (if name th = ''Compact Executive'' then
        (let fontSize = pt th (fonts_h2 (fonts th));
             textHeight = fontSize * 0.7;
             padding = 1;
             barY = y - textHeight - padding;
             barHeight = textHeight + padding * 2
         in d @ [SetFillColor (230, 231, 235),
                 Rect mrg barY (pgWidth - 2 * mrg) barHeight ''F'',
                 SetDrawColor (0, 0, 0),
                 SetLineWidth 0.5,
                 Line mrg barY mrg (barY + barHeight)])
      else d)"

text \<open>The terminal prefix before a text: the four blocks of the same shape.\<close>

definition drawPrefix :: "backend \<Rightarrow> color \<Rightarrow> string \<Rightarrow> real \<Rightarrow> render \<Rightarrow> real \<times> render" where
  "drawPrefix env prefixColor prefix x s =
     (if prefix \<noteq> [] then
        (let s = emit (SetTextColor prefixColor) s;
             s = textAt Decoration prefix x s
         in (x + getTextWidth env (doc s) prefix, s))
      else (x, s))"

subsection \<open>The header\<close>

text \<open>
  Lines 241 to 328 of the engine: \<open>headerPrefix\<close> is lines 253 to 261, \<open>headerName\<close>
  264 to 272, \<open>headerContact\<close> 278 to 312 with \<open>headerBar\<close> at 304 to 309,
  \<open>classicRule\<close> 315 to 320 and \<open>compactRule\<close> 323 to 328. \<open>drawPrefix\<close> above is
  lines 289 to 295, 371 to 377, 506 to 511, 542 to 547 and 568 to 573.
\<close>

definition headerPrefix :: "backend \<Rightarrow> theme \<Rightarrow> render \<Rightarrow> real \<times> render" where
  "headerPrefix env th s =
     (if prefixes_h1 (prefixes th) \<noteq> [] then
        (let prefixColor = orElse (colors_prefixGreen (colors th)) (colors_heading (colors th));
             s = emit (SetFontSize 10) s;
             s = emit (SetTextColor prefixColor) s;
             s = textAt Decoration (prefixes_h1 (prefixes th)) (margin th) s;
             prefixWidth = getTextWidth env (doc s) (prefixes_h1 (prefixes th))
         in (margin th + prefixWidth, emit (SetFontSize (fonts_h1 (fonts th))) s))
      else (margin th, s))"

definition headerName :: "backend \<Rightarrow> theme \<Rightarrow> string \<Rightarrow> real \<Rightarrow> render \<Rightarrow> render" where
  "headerName env th nm nameX s =
     (let s = emit (SetTextColor (colors_name (colors th))) s
      in if name th = ''Classic Minimalist'' then
           (let nameText = toUpperCase env nm;
                nameWidth = getTextWidth env (doc s) nameText;
                centerX = (pageWidth - nameWidth) / 2
            in textAt (Content Heading) nameText centerX s)
         else textAt (Content Heading) nm nameX s)"

definition headerBar :: "theme \<Rightarrow> string option \<Rightarrow> render \<Rightarrow> render" where
  "headerBar th headerBarImage s =
     (case headerBarImage of
        None \<Rightarrow> s
      | Some img \<Rightarrow>
          (case images th of
             None \<Rightarrow> s
           | Some im \<Rightarrow>
               if img \<noteq> [] then
                 (let barWidth = pageWidth - 2 * margin th;
                      barHeight = images_headerBarHeight im
                  in advance (barHeight + 2)
                       (emit (AddImage img ''PNG'' (margin th) (cursorY s) barWidth barHeight) s))
               else s))"

definition headerContact ::
  "backend \<Rightarrow> theme \<Rightarrow> string \<Rightarrow> string option \<Rightarrow> string \<Rightarrow> render \<Rightarrow> render" where
  "headerContact env th fontFamily headerBarImage contact s =
     (let s = emit (SetFontSize (fonts_subHeader (fonts th))) s;
          s = emit (SetFont fontFamily ''normal'') s;
          s = emit (SetTextColor (colors_bg (colors th))) s;
          s = textAt Ghost ''**Contact:** '' (margin th) s
      in case drawPrefix env (orElse (colors_prefixGreen (colors th)) (colors_heading (colors th)))
                (prefixes_subHeader (prefixes th)) (margin th) s of
           (contactX, s) \<Rightarrow>
             (let s = emit (SetTextColor (colors_role (colors th))) s;
                  s = textAt (Content ContactLine) contact contactX s;
                  s = advance (pt th (fonts_subHeader (fonts th))) s;
                  s = headerBar th headerBarImage s;
                  s = advance (px th (spacing_subHeaderMarginBottom (spacing th))) s
              in s))"

definition classicRule :: "theme \<Rightarrow> render \<Rightarrow> render" where
  "classicRule th s =
     (if name th = ''Classic Minimalist'' then
        (let s = emit (SetDrawColor (0, 0, 0)) s;
             s = emit (SetLineWidth 1.5) s;
             s = lineAt (margin th) (pageWidth - margin th) s
         in advance 4 s)
      else s)"

definition compactRule :: "theme \<Rightarrow> render \<Rightarrow> render" where
  "compactRule th s =
     (if name th = ''Compact Executive'' then
        (let s = emit (SetDrawColor (0, 0, 0)) s;
             s = emit (SetLineWidth 0.5) s;
             s = lineAt (margin th) (pageWidth - margin th) s
         in advance 6 s)
      else s)"

definition renderHeader ::
  "backend \<Rightarrow> theme \<Rightarrow> string \<Rightarrow> string option \<Rightarrow> string \<Rightarrow> string option \<Rightarrow> render \<Rightarrow> render" where
  "renderHeader env th fontFamily headerBarImage nm contact s =
     (let s = emit (SetFontSize (fonts_h1 (fonts th))) s;
          s = emit (SetFont fontFamily ''bold'') s;
          s = emit (SetTextColor (colors_bg (colors th))) s;
          s = textAt Ghost ''# '' (margin th) s
      in case headerPrefix env th s of
           (nameX, s) \<Rightarrow>
             (let s = headerName env th nm nameX s;
                  s = advance (pt th (fonts_h1 (fonts th))) s;
                  s = advance (px th (spacing_h1MarginBottom (spacing th))) s;
                  s = (case contact of
                         None \<Rightarrow> s
                       | Some c \<Rightarrow> if c \<noteq> [] then headerContact env th fontFamily headerBarImage c s else s);
                  s = classicRule th s;
                  s = compactRule th s
              in s))"

subsection \<open>The summary\<close>

text \<open>Lines 330 to 341; \<open>summaryText\<close> is lines 337 to 340.\<close>

definition summaryText :: "backend \<Rightarrow> theme \<Rightarrow> string \<Rightarrow> render \<Rightarrow> render" where
  "summaryText env th str s =
     (let maxWidth = pageWidth - 2 * margin th;
          summaryLines = splitTextToSize env (doc s) str maxWidth
      in advance (real (length summaryLines)
                    * lineHeight th (fonts_body (fonts th)) (lineHeights_body (lineHeights th)))
           (linesAt (Content SummaryBody) summaryLines (margin th) s))"

definition renderSummary :: "backend \<Rightarrow> theme \<Rightarrow> string \<Rightarrow> string \<Rightarrow> render \<Rightarrow> render" where
  "renderSummary env th fontFamily str s =
     (let s = snd (checkPageOverflow th 30 s);
          s = emit (SetFontSize (fonts_body (fonts th))) s;
          s = emit (SetFont fontFamily ''normal'') s;
          s = emit (SetTextColor (colors_text (colors th))) s;
          s = summaryText env th str s;
          s = advance (px th (spacing_h2MarginTop (spacing th))) s
      in s)"

subsection \<open>The bullet section\<close>

text \<open>
  Lines 343 to 477: \<open>sectionBar\<close> is lines 350 to 359 (and 486 to 495),
  \<open>sectionTitle\<close> 361 to 377, \<open>titleText\<close> 380 to 391 (and 513 to 523),
  \<open>renderBullet\<close> 395 to 476 (and 593 to 670) with \<open>bulletShape\<close> at 411 to 467 and
  \<open>bulletText\<close> at 470 to 476.
\<close>

definition sectionBar :: "theme \<Rightarrow> string option \<Rightarrow> render \<Rightarrow> render" where
  "sectionBar th sectionBarImage s =
     (case sectionBarImage of
        None \<Rightarrow> s
      | Some img \<Rightarrow>
          (case images th of
             None \<Rightarrow> s
           | Some im \<Rightarrow>
               if img \<noteq> [] then
                 (let barX = margin th + images_sectionBarOffset im;
                      barWidth = images_sectionBarWidth im;
                      barHeight = images_sectionBarHeight im;
                      fontSize = pt th (fonts_h2 (fonts th));
                      capHeight = fontSize * 0.7;
                      capCenter = cursorY s - (capHeight / 2);
                      barY = capCenter - (barHeight / 2)
                  in emit (AddImage img ''PNG'' barX barY barWidth barHeight) s)
               else s))"

definition compactBox :: "theme \<Rightarrow> string \<Rightarrow> string \<Rightarrow> real \<Rightarrow> render \<Rightarrow> render" where
  "compactBox th fontFamily str x s =
     s\<lparr>doc := drawCompactSectionBox (doc s) str x (cursorY s) th fontFamily pageWidth (margin th)\<rparr>"

definition titleText :: "backend \<Rightarrow> theme \<Rightarrow> string \<Rightarrow> string \<Rightarrow> real \<Rightarrow> render \<Rightarrow> render" where
  "titleText env th fontFamily title sectionX s =
     (let sectionText = toUpperCase env title;
          s = compactBox th fontFamily sectionText sectionX s;
          textX = (if name th = ''Compact Executive'' then sectionX + 2 else sectionX);
          textColor = (if name th = ''Compact Executive'' then (37, 99, 235)
                       else colors_heading (colors th));
          s = emit (SetTextColor textColor) s;
          s = textAt (Content TitleLine) sectionText textX s;
          s = advance (pt th (fonts_h2 (fonts th))) s;
          s = advance (px th (spacing_h2MarginBottom (spacing th))) s
      in s)"

definition sectionTitle :: "backend \<Rightarrow> theme \<Rightarrow> string \<Rightarrow> string \<Rightarrow> render \<Rightarrow> render" where
  "sectionTitle env th fontFamily title s =
     (let s = emit (SetFontSize (fonts_h2 (fonts th))) s;
          s = emit (SetFont fontFamily ''bold'') s;
          s = emit (SetTextColor (colors_bg (colors th))) s;
          s = textAt Ghost ''## '' (margin th) s
      in case drawPrefix env (orElse (colors_prefixGreen (colors th)) (colors_heading (colors th)))
                (prefixes_h2 (prefixes th)) (margin th) s of
           (sectionX, s) \<Rightarrow> titleText env th fontFamily title sectionX s)"

definition bulletShape :: "theme \<Rightarrow> color \<Rightarrow> render \<Rightarrow> render" where
  "bulletShape th bulletColor s =
     (if name th = ''Creative Designer'' then
        emitAll (diamondTriangles (margin th + 6) (cursorY s - 1) 0.9)
          (emit (SetFillColor bulletColor) s)
      else if name th = ''Creative Designer 2'' then
        emit (Triangle (margin th + 5) (cursorY s - 1.5) (margin th + 5) (cursorY s - 0.5)
                (margin th + 6.5) (cursorY s - 1) ''F'') s
      else
        textAt Decoration (prefixes_bullet (prefixes th) @ '' '') (margin th + 5)
          (emit (SetTextColor bulletColor) s))"

definition bulletText :: "backend \<Rightarrow> theme \<Rightarrow> string \<Rightarrow> real \<Rightarrow> string \<Rightarrow> render \<Rightarrow> render" where
  "bulletText env th fontFamily maxWidth bullet s =
     (let s = emit (SetFont fontFamily ''normal'') s;
          s = emit (SetTextColor (colors_text (colors th))) s;
          bulletLines = splitTextToSize env (doc s) bullet maxWidth
      in advance (px th (spacing_liMarginBottom (spacing th)))
           (advance (real (length bulletLines)
                       * lineHeight th (fonts_li (fonts th)) (lineHeights_li (lineHeights th)))
              (linesAt (Content BulletBody) bulletLines (margin th + 10) s)))"

definition renderBullet :: "backend \<Rightarrow> theme \<Rightarrow> string \<Rightarrow> render \<Rightarrow> string \<Rightarrow> render" where
  "renderBullet env th fontFamily s bullet =
     (let s = snd (checkPageOverflow th 15 s);
          maxWidth = pageWidth - 2 * margin th - 10;
          s = emit (SetTextColor (colors_bg (colors th))) s;
          s = textAt Ghost ''- '' (margin th) s;
          bulletColor = orElse (colors_bulletColor (colors th))
                          (orElse (colors_prefixGreen (colors th)) (colors_text (colors th)));
          s = emit (SetTextColor bulletColor) s;
          s = emit (SetFillColor bulletColor) s;
          s = bulletShape th bulletColor s;
          s = bulletText env th fontFamily maxWidth bullet s
      in s)"

definition renderBulletSection ::
  "backend \<Rightarrow> theme \<Rightarrow> string \<Rightarrow> string option \<Rightarrow> string \<Rightarrow> string list \<Rightarrow> render \<Rightarrow> render" where
  "renderBulletSection env th fontFamily sectionBarImage title bullets s =
     (let s = snd (checkPageOverflow th 30 s);
          s = advance (px th (spacing_h2MarginTop (spacing th))) s;
          s = sectionBar th sectionBarImage s;
          s = sectionTitle env th fontFamily title s;
          s = foldl (renderBullet env th fontFamily) s bullets
      in s)"

subsection \<open>The experience section\<close>

text \<open>
  Lines 479 to 677: \<open>experienceTitle\<close> is lines 497 to 511, \<open>renderJob\<close> 526 to 677
  with \<open>jobCompany\<close> at 530 to 554, \<open>renderRole\<close> 557 to 674 with \<open>roleMeta\<close> at
  561 to 589.
\<close>

definition experienceTitle :: "backend \<Rightarrow> theme \<Rightarrow> string \<Rightarrow> string \<Rightarrow> render \<Rightarrow> render" where
  "experienceTitle env th fontFamily title s =
     (let s = emit (SetTextColor (colors_bg (colors th))) s;
          s = textAt Ghost ''## '' (margin th) s;
          s = emit (SetFontSize (fonts_h2 (fonts th))) s;
          s = emit (SetFont fontFamily ''bold'') s
      in case drawPrefix env (orElse (colors_prefixGreen (colors th)) (colors_heading (colors th)))
                (prefixes_h2 (prefixes th)) (margin th) s of
           (sectionX, s) \<Rightarrow> titleText env th fontFamily title sectionX s)"

definition jobCompany :: "backend \<Rightarrow> theme \<Rightarrow> string \<Rightarrow> string \<Rightarrow> render \<Rightarrow> render" where
  "jobCompany env th fontFamily company s =
     (let s = advance (px th (spacing_h3MarginTop (spacing th))) s;
          s = emit (SetFontSize (fonts_h3 (fonts th))) s;
          s = emit (SetFont fontFamily ''bold'') s;
          s = emit (SetTextColor (colors_bg (colors th))) s;
          s = textAt Ghost ''### '' (margin th) s
      in case drawPrefix env (orElse (colors_prefixGray (colors th)) (colors_role (colors th)))
                (prefixes_h3 (prefixes th)) (margin th) s of
           (companyX, s) \<Rightarrow>
             (let s = emit (SetTextColor (colors_text (colors th))) s;
                  s = textAt (Content CompanyName) company companyX s;
                  s = advance (pt th (fonts_h3 (fonts th))) s;
                  s = advance (px th (spacing_jobHeaderMarginBottom (spacing th))) s
              in s))"

definition roleTitle :: "theme \<Rightarrow> string option \<Rightarrow> real \<Rightarrow> render \<Rightarrow> render" where
  "roleTitle th title metaX s =
     (case title of
        None \<Rightarrow> s
      | Some t \<Rightarrow>
          if t \<noteq> [] then textAt (Content JobTitle) t metaX (emit (SetTextColor (colors_role (colors th))) s)
          else s)"

definition rolePeriod :: "theme \<Rightarrow> string option \<Rightarrow> render \<Rightarrow> render" where
  "rolePeriod th period s =
     (case period of
        None \<Rightarrow> s
      | Some p \<Rightarrow>
          if p \<noteq> [] then
            textAlignedAt (Content JobPeriod) p (pageWidth - margin th) ''right''
              (emit (SetTextColor (colors_role (colors th))) s)
          else s)"

definition roleMeta :: "backend \<Rightarrow> theme \<Rightarrow> string \<Rightarrow> role \<Rightarrow> render \<Rightarrow> render" where
  "roleMeta env th fontFamily r s =
     (if truthy (role_title r) \<or> truthy (role_period r) then
        (let s = emit (SetFontSize (fonts_subHeader (fonts th))) s;
             s = emit (SetFont fontFamily ''normal'') s
         in case drawPrefix env (orElse (colors_prefixGray (colors th)) (colors_role (colors th)))
                   (prefixes_jobMeta (prefixes th)) (margin th) s of
              (metaX, s) \<Rightarrow>
                (let s = roleTitle th (role_title r) metaX s;
                     s = rolePeriod th (role_period r) s;
                     s = advance (pt th (fonts_subHeader (fonts th))) s;
                     s = advance (px th (spacing_jobHeaderMarginBottom (spacing th))) s
                 in s))
      else s)"

definition renderRole :: "backend \<Rightarrow> theme \<Rightarrow> string \<Rightarrow> render \<Rightarrow> role \<Rightarrow> render" where
  "renderRole env th fontFamily s r =
     (let s = snd (checkPageOverflow th 30 s);
          s = roleMeta env th fontFamily r s;
          s = foldl (renderBullet env th fontFamily) s (role_bullets r);
          s = advance (px th (spacing_ulMarginBottom (spacing th))) s
      in s)"

definition renderJob :: "backend \<Rightarrow> theme \<Rightarrow> string \<Rightarrow> render \<Rightarrow> job \<Rightarrow> render" where
  "renderJob env th fontFamily s j =
     (let s = snd (checkPageOverflow th 40 s);
          s = (case job_company j of
                 None \<Rightarrow> s
               | Some c \<Rightarrow> if c \<noteq> [] then jobCompany env th fontFamily c s else s);
          s = foldl (renderRole env th fontFamily) s (job_roles j);
          s = advance (px th (spacing_sectionMarginBottom (spacing th)) / 2) s
      in s)"

definition renderExperience ::
  "backend \<Rightarrow> theme \<Rightarrow> string \<Rightarrow> string option \<Rightarrow> string \<Rightarrow> job list \<Rightarrow> render \<Rightarrow> render" where
  "renderExperience env th fontFamily sectionBarImage title jobs s =
     (let s = snd (checkPageOverflow th 30 s);
          s = advance (px th (spacing_h2MarginTop (spacing th))) s;
          s = sectionBar th sectionBarImage s;
          s = experienceTitle env th fontFamily title s;
          s = foldl (renderJob env th fontFamily) s jobs
      in s)"

subsection \<open>The sections in order\<close>

text \<open>
  The dispatch on \<^verbatim>\<open>section.type\<close> of line 240, and \<^verbatim>\<open>generatePDF\<close> around it:
  \<open>registerFonts\<close> is lines 186 to 201, \<open>startPage\<close> 203 to 212, \<open>loadBar\<close> 215 to
  220, and line 682 saves the document.
\<close>

fun renderSection ::
  "backend \<Rightarrow> theme \<Rightarrow> string \<Rightarrow> string option \<Rightarrow> string option \<Rightarrow> render \<Rightarrow> formSection \<Rightarrow> render" where
  "renderSection env th fontFamily headerBarImage sectionBarImage s (HeaderSection nm contact) =
     renderHeader env th fontFamily headerBarImage nm contact s"
| "renderSection env th fontFamily headerBarImage sectionBarImage s (SummarySection str) =
     renderSummary env th fontFamily str s"
| "renderSection env th fontFamily headerBarImage sectionBarImage s (BulletSection title bullets) =
     renderBulletSection env th fontFamily sectionBarImage title bullets s"
| "renderSection env th fontFamily headerBarImage sectionBarImage s (ExperienceSection title jobs) =
     renderExperience env th fontFamily sectionBarImage title jobs s"
| "renderSection env th fontFamily headerBarImage sectionBarImage s OtherSection = s"

text \<open>
  The fonts are registered only when the three files have all been fetched: a failed
  fetch leaves the \<^verbatim>\<open>try\<close> block before its first call on the document.
\<close>

definition registerFonts :: "backend \<Rightarrow> prim list" where
  "registerFonts env =
     (case loadFontAsBase64 env ''/static/fonts/Inter-Regular.ttf'' of
        None \<Rightarrow> []
      | Some interRegular \<Rightarrow>
     (case loadFontAsBase64 env ''/static/fonts/Inter-Medium.ttf'' of
        None \<Rightarrow> []
      | Some interMedium \<Rightarrow>
     (case loadFontAsBase64 env ''/static/fonts/JetBrainsMono-Regular.ttf'' of
        None \<Rightarrow> []
      | Some jetbrainsMono \<Rightarrow>
          [AddFileToVFS ''Inter-Regular.ttf'' interRegular,
           AddFileToVFS ''Inter-Medium.ttf'' interMedium,
           AddFileToVFS ''JetBrainsMono-Regular.ttf'' jetbrainsMono,
           AddFont ''Inter-Regular.ttf'' ''Inter'' ''normal'',
           AddFont ''Inter-Medium.ttf'' ''Inter'' ''bold'',
           AddFont ''JetBrainsMono-Regular.ttf'' ''JetBrainsMono'' ''normal'',
           AddFont ''JetBrainsMono-Regular.ttf'' ''JetBrainsMono'' ''bold''])))"

definition loadBar :: "backend \<Rightarrow> theme \<Rightarrow> (images \<Rightarrow> string) \<Rightarrow> string option" where
  "loadBar env th path =
     (case images th of None \<Rightarrow> None | Some im \<Rightarrow> loadImageAsBase64 env (path im))"

definition startPage :: "backend \<Rightarrow> theme \<Rightarrow> render" where
  "startPage env th =
     (let s = \<lparr>cursorY = margin th, doc = registerFonts env\<rparr>;
          s = emit (SetFillColor (colors_bg (colors th))) s;
          s = emit (Rect 0 0 pageWidth pageHeight ''F'') s
      in s)"

definition generatePDF :: "backend \<Rightarrow> theme \<Rightarrow> formSection list \<Rightarrow> render" where
  "generatePDF env th sections =
     (let fontFamily = orElse (themeFonts (name th)) ''Inter'';
          s = startPage env th;
          headerBarImage = loadBar env th images_headerBar;
          sectionBarImage = loadBar env th images_sectionBar;
          s = foldl (renderSection env th fontFamily headerBarImage sectionBarImage) s sections;
          s = emit (Save ''resume.pdf'') s
      in s)"

section \<open>Reading the emitted calls\<close>

text \<open>
  The vocabulary of the specification for the ghost tags. A list of calls is read from
  its first call on, keeping the text colour set last and the position of a ghost marker
  that no content has followed yet. \<open>okGhost\<close> is what is asked of a marker where it
  is emitted (of the colour in effect and of its position), \<open>okPair\<close> what is asked of
  the position of a marker and of the content that follows it. The reading fails when a
  marker is emitted while another one still waits for its content, or when a check fails;
  it is accepted when it does not fail and no marker is left waiting at the end.
\<close>

record scan =
  inkColor :: "color option"
  pendingGhost :: "point option"

definition scanText ::
  "(color option \<Rightarrow> point \<Rightarrow> bool) \<Rightarrow> (point \<Rightarrow> point \<Rightarrow> bool) \<Rightarrow> mark \<Rightarrow> point \<Rightarrow> scan \<Rightarrow> scan option" where
  "scanText okGhost okPair mk pos st =
     (case mk of
        Ghost \<Rightarrow>
          if pendingGhost st = None \<and> okGhost (inkColor st) pos
          then Some (st\<lparr>pendingGhost := Some pos\<rparr>) else None
      | Decoration \<Rightarrow> Some st
      | Content k \<Rightarrow>
          (case pendingGhost st of
             None \<Rightarrow> Some st
           | Some g \<Rightarrow> if okPair g pos then Some (st\<lparr>pendingGhost := None\<rparr>) else None))"

fun scanStep ::
  "(color option \<Rightarrow> point \<Rightarrow> bool) \<Rightarrow> (point \<Rightarrow> point \<Rightarrow> bool) \<Rightarrow> prim \<Rightarrow> scan \<Rightarrow> scan option" where
  "scanStep okGhost okPair (SetTextColor c) st = Some (st\<lparr>inkColor := Some c\<rparr>)"
| "scanStep okGhost okPair (Text mk str x y) st = scanText okGhost okPair mk (x, y) st"
| "scanStep okGhost okPair (TextLines mk strs x y) st = scanText okGhost okPair mk (x, y) st"
| "scanStep okGhost okPair (TextAligned mk str x y align) st = scanText okGhost okPair mk (x, y) st"
| "scanStep okGhost okPair p st = Some st"

fun scanFrom ::
  "(color option \<Rightarrow> point \<Rightarrow> bool) \<Rightarrow> (point \<Rightarrow> point \<Rightarrow> bool) \<Rightarrow> scan \<Rightarrow> prim list \<Rightarrow> scan option" where
  "scanFrom okGhost okPair st [] = Some st"
| "scanFrom okGhost okPair st (p # ps) =
     (case scanStep okGhost okPair p st of
        None \<Rightarrow> None
      | Some st' \<Rightarrow> scanFrom okGhost okPair st' ps)"

definition ghostsAccepted ::
  "(color option \<Rightarrow> point \<Rightarrow> bool) \<Rightarrow> (point \<Rightarrow> point \<Rightarrow> bool) \<Rightarrow> prim list \<Rightarrow> bool" where
  "ghostsAccepted okGhost okPair ps =
     (case scanFrom okGhost okPair \<lparr>inkColor = None, pendingGhost = None\<rparr> ps of
        None \<Rightarrow> False
      | Some st \<Rightarrow> pendingGhost st = None)"

text \<open>
  \<open>ghostsHidden\<close>: content follows every marker, and the text colour in effect where a
  marker is emitted is the background colour.
\<close>

definition ghostsHidden :: "color \<Rightarrow> prim list \<Rightarrow> bool" where
  "ghostsHidden bg ps = ghostsAccepted (\<lambda>c pos. c = Some bg) (\<lambda>g pos. True) ps"

text \<open>
  A second reading, from the side of the content. Each kind of content that has a marker
  (\<open>markerOf\<close>) must come while its own marker waits: the marker was emitted before it,
  at the left margin and at the content's \<open>y\<close>, with no other marker and no other
  marked content in between. Content of the other kinds must come while no marker waits.
  The first visible text after a marker is the theme's prefix or bullet character when
  one is drawn, else the content itself; \<open>firstOk\<close> is what is asked of its position
  against the marker's. The reading is accepted when it does not fail and no marker is
  left waiting.

  \<open>sameCoordinates\<close> asks that the first visible text stands at the marker's
  coordinates. \<open>firstPlace\<close> asks the same but for a bullet, for the name of the Classic
  Minimalist theme without a prefix and for the title of the Compact Executive theme
  without a prefix, where it asks for the marker's \<open>y\<close> only.
\<close>

fun markerOf :: "item \<Rightarrow> string option" where
  "markerOf Heading = Some ''# ''"
| "markerOf ContactLine = Some ''**Contact:** ''"
| "markerOf TitleLine = Some ''## ''"
| "markerOf CompanyName = Some ''### ''"
| "markerOf BulletBody = Some ''- ''"
| "markerOf k = None"

record waiting =
  waitToken :: string
  waitPos :: point
  waitSeen :: bool

definition markGhost :: "real \<Rightarrow> string \<Rightarrow> point \<Rightarrow> waiting option \<Rightarrow> waiting option option" where
  "markGhost mrg tok pos w =
     (if w = None \<and> fst pos = mrg
      then Some (Some \<lparr>waitToken = tok, waitPos = pos, waitSeen = False\<rparr>)
      else None)"

definition markDecoration ::
  "(string \<Rightarrow> point \<Rightarrow> point \<Rightarrow> bool) \<Rightarrow> point \<Rightarrow> waiting option \<Rightarrow> waiting option option" where
  "markDecoration firstOk pos w =
     (case w of
        None \<Rightarrow> Some None
      | Some v \<Rightarrow>
          if waitSeen v then Some (Some v)
          else if firstOk (waitToken v) (waitPos v) pos then Some (Some (v\<lparr>waitSeen := True\<rparr>))
          else None)"

definition markContent ::
  "(string \<Rightarrow> point \<Rightarrow> point \<Rightarrow> bool) \<Rightarrow> item \<Rightarrow> point \<Rightarrow> waiting option \<Rightarrow> waiting option option" where
  "markContent firstOk k pos w =
     (case markerOf k of
        None \<Rightarrow> if w = None then Some None else None
      | Some tok \<Rightarrow>
          (case w of
             None \<Rightarrow> None
           | Some v \<Rightarrow>
               if waitToken v = tok \<and> snd (waitPos v) = snd pos
                  \<and> (waitSeen v \<or> firstOk tok (waitPos v) pos)
               then Some None else None))"

definition markVisible ::
  "(string \<Rightarrow> point \<Rightarrow> point \<Rightarrow> bool) \<Rightarrow> mark \<Rightarrow> point \<Rightarrow> waiting option \<Rightarrow> waiting option option" where
  "markVisible firstOk mk pos w =
     (case mk of
        Ghost \<Rightarrow> None
      | Decoration \<Rightarrow> markDecoration firstOk pos w
      | Content k \<Rightarrow> markContent firstOk k pos w)"

fun markStep ::
  "real \<Rightarrow> (string \<Rightarrow> point \<Rightarrow> point \<Rightarrow> bool) \<Rightarrow> prim \<Rightarrow> waiting option \<Rightarrow> waiting option option" where
  "markStep mrg firstOk (Text mk str x y) w =
     (if mk = Ghost then markGhost mrg str (x, y) w else markVisible firstOk mk (x, y) w)"
| "markStep mrg firstOk (TextLines mk strs x y) w = markVisible firstOk mk (x, y) w"
| "markStep mrg firstOk (TextAligned mk str x y align) w = markVisible firstOk mk (x, y) w"
| "markStep mrg firstOk p w = Some w"

fun markScan ::
  "real \<Rightarrow> (string \<Rightarrow> point \<Rightarrow> point \<Rightarrow> bool) \<Rightarrow> waiting option \<Rightarrow> prim list \<Rightarrow> waiting option option" where
  "markScan mrg firstOk w [] = Some w"
| "markScan mrg firstOk w (p # ps) =
     (case markStep mrg firstOk p w of
        None \<Rightarrow> None
      | Some w' \<Rightarrow> markScan mrg firstOk w' ps)"



definition firstPlace :: "theme \<Rightarrow> string \<Rightarrow> point \<Rightarrow> point \<Rightarrow> bool" where
  "firstPlace th tok g pos =
     (if tok = ''- ''
         \<or> (tok = ''# '' \<and> name th = ''Classic Minimalist'' \<and> prefixes_h1 (prefixes th) = [])
         \<or> (tok = ''## '' \<and> name th = ''Compact Executive'' \<and> prefixes_h2 (prefixes th) = [])
      then snd g = snd pos
      else g = pos)"

section \<open>A theme, a backend and a document\<close>

text \<open>
  The Creative Designer theme of the repository; its bullet character, a star outside
  ASCII, is written as the three bytes of its UTF-8 form. \<open>monoBackend\<close> is a backend
  for examples: every character is two units wide, a text is never wrapped, letters of
  ASCII are put in upper case, and every fetch succeeds.
\<close>

definition creativeTheme :: theme where
  "creativeTheme =
     \<lparr>name = ''Creative Designer'',
      margin = 15,
      spacing = \<lparr>spacing_h1MarginBottom = 4, spacing_subHeaderMarginBottom = 12,
        spacing_h2MarginTop = 12, spacing_h2MarginBottom = 6, spacing_h3MarginTop = 8,
        spacing_jobHeaderMarginBottom = 4, spacing_ulMarginBottom = 10,
        spacing_liMarginBottom = 3, spacing_sectionMarginBottom = 16\<rparr>,
      fonts = \<lparr>fonts_h1 = 22, fonts_subHeader = 8, fonts_h2 = 10, fonts_h3 = 9,
        fonts_li = 8.5, fonts_body = 9\<rparr>,
      lineHeights = \<lparr>lineHeights_li = 1.5, lineHeights_body = 1.4\<rparr>,
      colors = \<lparr>colors_bg = (255, 255, 255), colors_name = (139, 92, 246),
        colors_role = (107, 114, 128), colors_heading = (139, 92, 246),
        colors_text = (55, 65, 81), colors_prefixGreen = None, colors_prefixGray = None,
        colors_bulletColor = Some (139, 92, 246)\<rparr>,
      prefixes = \<lparr>prefixes_h1 = [], prefixes_subHeader = [], prefixes_h2 = [],
        prefixes_h3 = [], prefixes_jobMeta = [],
        prefixes_bullet = [char_of (226 :: nat), char_of (152 :: nat), char_of (133 :: nat)]\<rparr>,
      images = Some \<lparr>images_headerBar = ''/static/images/pdf/creative-header-bar.png'',
        images_sectionBar = ''/static/images/pdf/creative-section-bar.png'',
        images_headerBarHeight = 1, images_sectionBarWidth = 1.25,
        images_sectionBarHeight = 3.5, images_sectionBarOffset = - 2.5\<rparr>\<rparr>"

definition upperChar :: "char \<Rightarrow> char" where
  "upperChar c =
     (if 97 \<le> (of_char c :: nat) \<and> (of_char c :: nat) \<le> 122
      then char_of ((of_char c :: nat) - 32) else c)"

definition monoBackend :: backend where
  "monoBackend =
     \<lparr>getTextWidth = (\<lambda>d str. 2 * real (length str)),
      splitTextToSize = (\<lambda>d str w. [str]),
      toUpperCase = map upperChar,
      loadFontAsBase64 = (\<lambda>path. Some ''AAAA''),
      loadImageAsBase64 = (\<lambda>path. Some ''data:image/png;base64,AAAA'')\<rparr>"




text \<open>
  \<open>lineBackend\<close> breaks a text at its line feeds, as \<^verbatim>\<open>splitTextToSize\<close> does
  before it measures. \<open>tallBullet\<close> is a bullet of sixty lines; the two documents
  put a header, and a summary, after a section with that bullet.
\<close>

fun splitLines :: "string \<Rightarrow> string list" where
  "splitLines [] = [[]]"
| "splitLines (c # cs) =
     (if c = CHR 0x0A then [] # splitLines cs
      else (case splitLines cs of [] \<Rightarrow> [[c]] | w # ws \<Rightarrow> (c # w) # ws))"

definition lineBackend :: backend where
  "lineBackend = monoBackend\<lparr>splitTextToSize := (\<lambda>d str w. splitLines str)\<rparr>"

definition tallBullet :: string where
  "tallBullet = concat (replicate 59 [CHR ''x'', CHR 0x0A]) @ ''x''"

definition lateHeaderDocument :: "formSection list" where
  "lateHeaderDocument =
     [BulletSection ''Skills'' [tallBullet], HeaderSection ''Jane Doe'' (Some ''jane@x.com'')]"

definition lateSummaryDocument :: "formSection list" where
  "lateSummaryDocument =
     [BulletSection ''Skills'' [tallBullet], SummarySection ''Engineer'']"

section \<open>Relations used in the proofs\<close>

text \<open>
  The source's flow and the specification's flow agree: same calls, same \<open>y\<close>, the
  source's \<open>currentX\<close> is the end of the specification's line, and no width on the line
  is negative. \<open>placedWithin\<close>: a flow has only added calls, and each word among them
  starts at or before the right edge.
\<close>

definition flowRel :: "real \<Rightarrow> flow \<Rightarrow> specFlow \<Rightarrow> bool" where
  "flowRel x f g =
     (flowDoc f = specDoc g \<and> currentY f = lineY g \<and> currentX f = lineEnd x g
      \<and> list_all (\<lambda>w. 0 \<le> w) (lineWords g))"

definition placedWithin :: "real \<Rightarrow> flow \<Rightarrow> flow \<Rightarrow> bool" where
  "placedWithin re f f' = (\<exists>new. flowDoc f' = flowDoc f @ new \<and> list_all (wordWithin re) new)"

text \<open>
  For the ghost tags: \<open>reading\<close> is what the reading of the document of a state has
  come to (\<open>None\<close> when it has failed, else the marker left waiting, if any), and
  \<open>afterContent\<close> what a content text makes of it. \<open>strictGhost\<close> and
  \<open>strictPair\<close> ask for everything the composer ensures: the background colour in
  effect and the left margin for a marker, the marker's \<open>y\<close> for the content that
  follows. A call is \<open>quiet\<close> when no reading looks at it. \<open>grows\<close>: a state has
  only added calls to the document of another.
\<close>

definition strictGhost :: "theme \<Rightarrow> color option \<Rightarrow> point \<Rightarrow> bool" where
  "strictGhost th c pos = (c = Some (colors_bg (colors th)) \<and> fst pos = margin th)"

definition strictPair :: "point \<Rightarrow> point \<Rightarrow> bool" where
  "strictPair g pos = (snd g = snd pos)"

definition reading ::
  "(color option \<Rightarrow> point \<Rightarrow> bool) \<Rightarrow> (point \<Rightarrow> point \<Rightarrow> bool) \<Rightarrow> render \<Rightarrow> point option option" where
  "reading G P s =
     map_option pendingGhost (scanFrom G P \<lparr>inkColor = None, pendingGhost = None\<rparr> (doc s))"

definition afterContent ::
  "(point \<Rightarrow> point \<Rightarrow> bool) \<Rightarrow> point option option \<Rightarrow> point \<Rightarrow> point option option" where
  "afterContent P p pos =
     (case p of
        None \<Rightarrow> None
      | Some None \<Rightarrow> Some None
      | Some (Some g) \<Rightarrow> if P g pos then Some None else None)"

definition grows :: "render \<Rightarrow> render \<Rightarrow> bool" where
  "grows s s' = (\<exists>new. doc s' = doc s @ new)"

fun quiet :: "prim \<Rightarrow> bool" where
  "quiet (Text mk str x y) = (mk = Decoration)"
| "quiet (TextLines mk strs x y) = (mk = Decoration)"
| "quiet (TextAligned mk str x y align) = (mk = Decoration)"
| "quiet p = True"

text \<open>
  For the second reading: \<open>marks\<close> is what it has come to on the document of a state,
  and a call is \<open>silent\<close> when that reading does not look at it.
\<close>

definition marks :: "real \<Rightarrow> (string \<Rightarrow> point \<Rightarrow> point \<Rightarrow> bool) \<Rightarrow> render \<Rightarrow> waiting option option" where
  "marks mrg firstOk s = markScan mrg firstOk None (doc s)"

fun silent :: "prim \<Rightarrow> bool" where
  "silent (Text mk str x y) = False"
| "silent (TextLines mk strs x y) = False"
| "silent (TextAligned mk str x y align) = False"
| "silent p = True"

section \<open>Properties of the unit conversion\<close>

text \<open>
  C6: the three conversions are the linear maps \<open>v * 25.4/96\<close>, \<open>s * 25.4/72\<close> and
  \<open>fontSize * lh * 25.4/72\<close>; doubling an argument doubles the result (for every
  argument, so for the non-negative ones); \<open>ptToLength(18) = 6.35\<close>; and
  \<open>pxToLength(4) = 4 * 25.4/96\<close>, which is 1.0583 up to the fourth decimal.
\<close>

theorem unit_conversions_linear:
  "px th v = v * 25.4 / 96
   \<and> pt th s = s * 25.4 / 72
   \<and> lineHeight th fontSize lh = fontSize * lh * 25.4 / 72
   \<and> px th (2 * x) = 2 * px th x
   \<and> pt th (2 * x) = 2 * pt th x
   \<and> lineHeight th (2 * x) lh = 2 * lineHeight th x lh
   \<and> lineHeight th fontSize (2 * x) = 2 * lineHeight th fontSize x
   \<and> pt th 18 = 6.35
   \<and> px th 4 = 4 * 25.4 / 96
   \<and> \<bar>px th 4 - 1.0583\<bar> < 0.0001"
  by (simp add: px_def pt_def lineHeight_def PX_TO_MM_def PT_TO_MM_def)

text \<open>
  C10: the theme argument of the helpers is inert: two themes give the same result on
  the same numbers.
\<close>

theorem unit_conversions_ignore_theme:
  "px t1 v = px t2 v
   \<and> pt t1 v = pt t2 v
   \<and> lineHeight t1 fontSize lh = lineHeight t2 fontSize lh"
  by (simp add: px_def pt_def lineHeight_def)

section \<open>Properties of the inline markup parser\<close>

lemma parseLoop_texts:
  "parseLoop input segs cur b = (segs', cur', b') \<Longrightarrow>
   segmentTexts segs' @ cur' = segmentTexts segs @ cur @ plainText (tokens input)"
  by (induction input segs cur b rule: parseLoop.induct)
     (auto simp: segmentTexts_def split: if_splits)

lemma afterLast_id: "Delim \<notin> set ts \<Longrightarrow> afterLast ts = ts"
proof -
  assume "Delim \<notin> set ts"
  then have "takeWhile (\<lambda>k. k \<noteq> Delim) (rev ts) = rev ts"
    by auto
  then show ?thesis by (simp only: afterLast_def rev_rev_ident)
qed

lemma afterLast_Plain:
  "afterLast (Plain c # ts) = (if Delim \<in> set ts then afterLast ts else Plain c # ts)"
  by (auto simp: afterLast_def takeWhile_append)

lemma afterLast_Delim:
  "afterLast (Delim # ts) = (if Delim \<in> set ts then afterLast ts else ts)"
  by (auto simp: afterLast_def takeWhile_append)

lemma parseLoop_current:
  "fst (snd (parseLoop input segs cur b)) =
     (if Delim \<in> set (tokens input) then trailingText input else cur @ trailingText input)"
proof (induction input segs cur b rule: parseLoop.induct)
  case (1 segments current inBold)
  then show ?case by (simp add: trailingText_def afterLast_def)
next
  case (2 c segments current inBold)
  then show ?case by (simp add: trailingText_def afterLast_def)
next
  case (3 c d rest segments current inBold)
  show ?case
  proof (cases "c = CHR ''*'' \<and> d = CHR ''*''")
    case True
    then have tk: "tokens (c # d # rest) = Delim # tokens rest"
      by auto
    from True 3 show ?thesis
      unfolding trailingText_def tk
      by (auto simp: afterLast_Delim afterLast_id simp del: tokens.simps(3))
  next
    case False
    then have tk: "tokens (c # d # rest) = Plain c # tokens (d # rest)"
      by auto
    from False 3 show ?thesis
      unfolding trailingText_def tk
      by (auto simp: afterLast_Plain afterLast_id simp del: tokens.simps(3))
  qed
qed

lemma parseLoop_flag:
  "snd (snd (parseLoop input segs cur b)) = (b \<noteq> odd (delimCount input))"
  by (induction input segs cur b rule: parseLoop.induct)
     (auto simp: delimCount_def)

text \<open>
  C5: the texts of the segments, concatenated, are the input with every delimiter
  removed. This holds for every input, so for each input with an even number of
  delimiters; and the empty input gives no segment.
\<close>

theorem parseInlineBold_lossless:
  "segmentTexts (parseInlineBold input) = stripDelims input \<and> parseInlineBold [] = []"
proof -
  obtain segs cur b where run: "parseLoop input [] [] False = (segs, cur, b)"
    by (cases "parseLoop input [] [] False") auto
  from parseLoop_texts[OF run] have "segmentTexts segs @ cur = plainText (tokens input)"
    by (simp add: segmentTexts_def)
  with run have "segmentTexts (parseInlineBold input) = stripDelims input"
    by (auto simp add: parseInlineBold_def stripDelims_def segmentTexts_def)
  moreover have "parseInlineBold [] = []"
    by (simp add: parseInlineBold_def)
  ultimately show ?thesis by simp
qed

text \<open>
  C9: when the number of delimiters is odd, the text after the last delimiter is still
  flushed: it is the last segment of the result, and it carries the flag that is active
  at the end of the string, which is then the emphasised one. A buffer that is empty at
  the end holds no text and gives no segment.
\<close>

theorem parseInlineBold_unterminated:
  assumes "odd (delimCount input)" and "trailingText input \<noteq> []"
  shows "parseInlineBold input \<noteq> []
    \<and> last (parseInlineBold input) = \<lparr>seg_text = trailingText input, seg_bold = True\<rparr>"
proof -
  obtain segs cur b where run: "parseLoop input [] [] False = (segs, cur, b)"
    by (cases "parseLoop input [] [] False") auto
  have "Delim \<in> set (tokens input)"
  proof (rule ccontr)
    assume "Delim \<notin> set (tokens input)"
    then have "filter (\<lambda>k. k = Delim) (tokens input) = []"
      by (auto simp: filter_empty_conv)
    with assms(1) show False by (simp add: delimCount_def)
  qed
  with parseLoop_current[of input "[]" "[]" False] run have cur: "cur = trailingText input"
    by simp
  from parseLoop_flag[of input "[]" "[]" False] run assms(1) have b: "b = True"
    by simp
  from run cur b assms(2) show ?thesis
    by (simp add: parseInlineBold_def)
qed

theorem parseInlineBold_unterminated_witness:
  "odd (delimCount ''a**bc'') \<and> trailingText ''a**bc'' \<noteq> []
   \<and> parseInlineBold ''a**bc'' \<noteq> []
   \<and> last (parseInlineBold ''a**bc'') = \<lparr>seg_text = ''bc'', seg_bold = True\<rparr>"
proof -
  have c: "odd (delimCount ''a**bc'')"
    by (simp add: delimCount_def)
  have t: "trailingText ''a**bc'' = ''bc''"
    by (simp add: trailingText_def afterLast_def)
  from parseInlineBold_unterminated[of "''a**bc''"] c t show ?thesis
    by simp
qed

section \<open>Properties of the page break\<close>

text \<open>
  C1: \<^verbatim>\<open>checkPageOverflow\<close> breaks the page exactly when
  \<open>y + requiredSpace > pageHeight - margin\<close>, and returns whether it did. On a break it
  adds the \<^verbatim>\<open>addPage\<close> call and the fill of the whole page with the background
  colour, sets \<open>y\<close> to the margin, and the page index grows by one. Otherwise the state
  is unchanged.
\<close>

theorem checkPageOverflow_breaks_iff:
  "fst (checkPageOverflow th required s) = (cursorY s + required > pageHeight - margin th)
   \<and> (cursorY s + required > pageHeight - margin th \<longrightarrow>
        doc (snd (checkPageOverflow th required s)) =
          doc s @ [AddPage, SetFillColor (colors_bg (colors th)), Rect 0 0 pageWidth pageHeight ''F'']
        \<and> cursorY (snd (checkPageOverflow th required s)) = margin th
        \<and> pageIndex (snd (checkPageOverflow th required s)) = pageIndex s + 1)
   \<and> (\<not> cursorY s + required > pageHeight - margin th \<longrightarrow>
        snd (checkPageOverflow th required s) = s)"
  by (simp add: checkPageOverflow_def addNewPage_def emit_def pageIndex_def)


theorem checkPageOverflow_breaks_iff_witness:
  "fst (checkPageOverflow creativeTheme 30 \<lparr>cursorY = 260, doc = []\<rparr>)
   \<and> doc (snd (checkPageOverflow creativeTheme 30 \<lparr>cursorY = 260, doc = []\<rparr>)) =
       [AddPage, SetFillColor (255, 255, 255), Rect 0 0 210 297 ''F'']
   \<and> cursorY (snd (checkPageOverflow creativeTheme 30 \<lparr>cursorY = 260, doc = []\<rparr>)) = 15
   \<and> pageIndex (snd (checkPageOverflow creativeTheme 30 \<lparr>cursorY = 260, doc = []\<rparr>)) = 1
   \<and> \<not> fst (checkPageOverflow creativeTheme 30 \<lparr>cursorY = 100, doc = []\<rparr>)
   \<and> snd (checkPageOverflow creativeTheme 30 \<lparr>cursorY = 100, doc = []\<rparr>) =
       \<lparr>cursorY = 100, doc = []\<rparr>"
  using checkPageOverflow_breaks_iff[of creativeTheme 30 "\<lparr>cursorY = 260, doc = []\<rparr>"]
    checkPageOverflow_breaks_iff[of creativeTheme 30 "\<lparr>cursorY = 100, doc = []\<rparr>"]
  by (simp add: creativeTheme_def pageHeight_def pageWidth_def pageIndex_def)

section \<open>Properties of the diamond bullet\<close>

text \<open>
  C7: for every anchor and size the diamond is eight filled triangles, two per petal: the
  two triangles of the top petal as the specification gives them, then the same pair
  turned about the anchor by one, two and three quarter turns. For size 0.9 at (21, 10)
  the first triangle of the top petal has the vertices (21, 9.1), (20.73, 9.73), (21, 10).
\<close>

theorem diamond_petals:
  "diamondTriangles cx cy sz =
     concat (map (\<lambda>n. [turnTriangle (cx, cy) n (topTriangleA cx cy sz),
                         turnTriangle (cx, cy) n (topTriangleB cx cy sz)]) [0, 1, 2, 3])
   \<and> length (diamondTriangles cx cy sz) = 8
   \<and> topTriangleA 21 10 0.9 = Triangle 21 9.1 20.73 9.73 21 10 ''F''
   \<and> diamondTriangles 21 10 0.9 ! 0 = Triangle 21 9.1 20.73 9.73 21 10 ''F''"
  by (simp add: diamondTriangles_def petalTriangles_def topPoints_def rightPoints_def
      bottomPoints_def leftPoints_def topTriangleA_def topTriangleB_def quarterTurn_def
      eval_nat_numeral)


section \<open>Properties of the inline renderer\<close>

lemma positive_word_iff:
  "list_all (\<lambda>w. 0 \<le> w) ws \<Longrightarrow> list_ex (\<lambda>w. 0 < w) ws = (0 < sum_list (ws :: real list))"
proof (induction ws)
  case Nil
  show ?case by simp
next
  case (Cons w ws)
  then have "0 \<le> w" and "0 \<le> sum_list ws"
    by (simp_all add: list_all_iff sum_list_nonneg)
  with Cons show ?case by auto
qed

lemma lineHasContent_iff:
  "list_all (\<lambda>w. 0 \<le> w) (lineWords g) \<Longrightarrow> lineHasContent g = (x < lineEnd x g)"
  by (simp add: lineHasContent_def lineEnd_def positive_word_iff)

lemma put_refines: "flowRel x f g \<Longrightarrow> flowRel x (put p f) (specPut p g)"
  by (simp add: flowRel_def put_def specPut_def lineEnd_def)

lemma wrap_refines:
  "flowRel x f g \<Longrightarrow> flowRel x (wrapWord th x re w f) (specBreak th x re w g)"
proof -
  assume r: "flowRel x f g"
  then have nn: "list_all (\<lambda>w. 0 \<le> w) (lineWords g)"
    by (simp add: flowRel_def)
  from r lineHasContent_iff[OF nn, of x] show ?thesis
    by (simp add: flowRel_def wrapWord_def specBreak_def lineEnd_def)
qed

lemma marker_refines:
  "flowRel x f g \<Longrightarrow> flowRel x (marker th c f) (specMarker th x c g)"
  by (simp add: flowRel_def marker_def specMarker_def put_def specPut_def lineEnd_def)

lemma place_refines:
  "flowRel x f g \<Longrightarrow> 0 \<le> w \<Longrightarrow> flowRel x (placeWord th t w f) (specPlace th x t w g)"
  by (simp add: flowRel_def placeWord_def specPlace_def put_def specPut_def lineEnd_def Let_def)

lemma renderWord_refines:
  assumes "flowRel x f g" and "\<forall>h t. 0 \<le> getTextWidth env h t"
  shows "flowRel x (renderWord env th fam x re bold n f iw) (specWord env th fam x re bold n g iw)"
proof -
  let ?font = "if bold then ''bold'' else ''normal''"
  have r1: "flowRel x (put (SetFont fam ?font) f) (specPut (SetFont fam ?font) g)"
    using assms(1) by (rule put_refines)
  then have d: "flowDoc (put (SetFont fam ?font) f) = specDoc (specPut (SetFont fam ?font) g)"
    by (simp add: flowRel_def)
  show ?thesis
    unfolding renderWord_def specWord_def Let_def d
    by (intro marker_refines place_refines wrap_refines r1) (simp add: assms(2))
qed

lemma renderWords_refine:
  assumes "\<forall>h t. 0 \<le> getTextWidth env h t"
  shows "flowRel x f g \<Longrightarrow>
    flowRel x (foldl (renderWord env th fam x re bold n) f iws)
      (foldl (specWord env th fam x re bold n) g iws)"
  by (induction iws arbitrary: f g) (simp_all add: renderWord_refines[OF _ assms])

lemma renderSegments_refine:
  assumes "\<forall>h t. 0 \<le> getTextWidth env h t"
  shows "flowRel x f g \<Longrightarrow>
    flowRel x (renderSegments env th fam x re segs f) (specSegments env th fam x re segs g)"
  unfolding renderSegments_def specSegments_def
  by (induction segs arbitrary: f g)
     (simp_all add: renderSegment_def specSegment_def Let_def renderWords_refine[OF assms])

lemma placedWithin_refl: "placedWithin re f f"
  by (simp add: placedWithin_def)

lemma placedWithin_trans:
  "placedWithin re f f' \<Longrightarrow> placedWithin re f' f'' \<Longrightarrow> placedWithin re f f''"
  by (auto simp: placedWithin_def)

lemma put_within: "wordWithin re p \<Longrightarrow> placedWithin re f (put p f)"
  by (simp add: placedWithin_def put_def)

lemma wrap_within: "placedWithin re f (wrapWord th x re' w f)"
  by (simp add: placedWithin_def wrapWord_def)

lemma marker_within: "placedWithin re f (marker th c f)"
  by (simp add: placedWithin_def marker_def put_def)

lemma place_within: "currentX f \<le> re \<Longrightarrow> placedWithin re f (placeWord th t w f)"
  by (simp add: placedWithin_def placeWord_def put_def Let_def)

lemma wrap_start: "0 \<le> w \<Longrightarrow> x \<le> re \<Longrightarrow> currentX (wrapWord th x re w f) \<le> re"
  by (auto simp: wrapWord_def)

lemma marker_currentX: "currentX (marker th c f) = currentX f"
  by (simp add: marker_def put_def)

lemma renderWord_within:
  assumes "\<forall>h t. 0 \<le> getTextWidth env h t" and "x \<le> re"
  shows "placedWithin re f (renderWord env th fam x re bold n f iw)"
  unfolding renderWord_def Let_def
  by (intro placedWithin_trans[OF put_within placedWithin_trans[OF wrap_within
        placedWithin_trans[OF marker_within placedWithin_trans[OF place_within marker_within]]]])
     (simp_all add: marker_currentX wrap_start assms)

lemma renderWords_within:
  assumes "\<forall>h t. 0 \<le> getTextWidth env h t" and "x \<le> re"
  shows "placedWithin re f (foldl (renderWord env th fam x re bold n) f iws)"
proof (induction iws arbitrary: f)
  case Nil
  show ?case by (simp add: placedWithin_refl)
next
  case (Cons iw iws)
  show ?case
    using placedWithin_trans[OF renderWord_within[OF assms] Cons.IH] by simp
qed

lemma renderSegments_within:
  assumes "\<forall>h t. 0 \<le> getTextWidth env h t" and "x \<le> re"
  shows "placedWithin re f (renderSegments env th fam x re segs f)"
  unfolding renderSegments_def
proof (induction segs arbitrary: f)
  case Nil
  show ?case by (simp add: placedWithin_refl)
next
  case (Cons seg segs)
  have "placedWithin re f (renderSegment env th fam x re f seg)"
    by (simp add: renderSegment_def Let_def renderWords_within[OF assms])
  from placedWithin_trans[OF this Cons.IH] show ?case by simp
qed


text \<open>
  C4: let the width function of the backend never be negative and the start column not
  exceed the right edge \<open>pageWidth - margin\<close>. Then, for every list of segments, every
  word is placed with its start at or before the right edge (an oversized word too: it
  starts at the start column), and the source's flow is the flow of the specification,
  which breaks the line (one line advance down, back to the start column) before a word
  exactly when the word would cross the right edge and the line already contains a word of
  positive width. The same holds of \<^verbatim>\<open>renderInlineBold\<close> on the parsed text.
\<close>

theorem renderInlineBold_wraps:
  assumes "\<forall>h t. 0 \<le> getTextWidth env h t" and "x \<le> pgWidth - mrg"
  shows "list_all (wordWithin (pgWidth - mrg))
           (drop (length d) (flowDoc (renderSegments env th fam x (pgWidth - mrg) segs
              \<lparr>currentX = x, currentY = y, flowDoc = d\<rparr>)))
    \<and> flowDoc (renderSegments env th fam x (pgWidth - mrg) segs
          \<lparr>currentX = x, currentY = y, flowDoc = d\<rparr>)
        = specDoc (specSegments env th fam x (pgWidth - mrg) segs
            \<lparr>lineWords = [], lineY = y, specDoc = d\<rparr>)
    \<and> currentY (renderSegments env th fam x (pgWidth - mrg) segs
          \<lparr>currentX = x, currentY = y, flowDoc = d\<rparr>)
        = lineY (specSegments env th fam x (pgWidth - mrg) segs
            \<lparr>lineWords = [], lineY = y, specDoc = d\<rparr>)
    \<and> renderInlineBold env d input x y th maxWidth pgWidth mrg fam
        = (lineY (specSegments env th fam x (pgWidth - mrg) (parseInlineBold input)
             \<lparr>lineWords = [], lineY = y, specDoc = d\<rparr>),
           specDoc (specSegments env th fam x (pgWidth - mrg) (parseInlineBold input)
             \<lparr>lineWords = [], lineY = y, specDoc = d\<rparr>))"
proof -
  let ?f0 = "\<lparr>currentX = x, currentY = y, flowDoc = d\<rparr>"
  let ?g0 = "\<lparr>lineWords = [], lineY = y, specDoc = d\<rparr>"
  have r0: "flowRel x ?f0 ?g0"
    by (simp add: flowRel_def lineEnd_def)
  have rel: "flowRel x (renderSegments env th fam x (pgWidth - mrg) sg ?f0)
               (specSegments env th fam x (pgWidth - mrg) sg ?g0)" for sg
    using renderSegments_refine[OF assms(1) r0] .
  from renderSegments_within[OF assms, where f = ?f0 and segs = segs and th = th and fam = fam]
  have "list_all (wordWithin (pgWidth - mrg))
          (drop (length d) (flowDoc (renderSegments env th fam x (pgWidth - mrg) segs ?f0)))"
    by (auto simp: placedWithin_def)
  moreover from rel[of "parseInlineBold input"]
  have "renderInlineBold env d input x y th maxWidth pgWidth mrg fam
        = (lineY (specSegments env th fam x (pgWidth - mrg) (parseInlineBold input) ?g0),
           specDoc (specSegments env th fam x (pgWidth - mrg) (parseInlineBold input) ?g0))"
    by (simp add: renderInlineBold_def Let_def flowRel_def)
  ultimately show ?thesis
    using rel[of segs] by (simp add: flowRel_def)
qed

theorem renderInlineBold_wraps_witness:
  "(\<forall>h t. 0 \<le> getTextWidth monoBackend h t) \<and> (15 :: real) \<le> 40 - 15
   \<and> (list_all (wordWithin (40 - 15))
        (drop (length ([] :: prim list))
           (flowDoc (renderSegments monoBackend creativeTheme ''Inter'' 15 (40 - 15)
              (parseInlineBold ''ab **cd**'') \<lparr>currentX = 15, currentY = 20, flowDoc = []\<rparr>)))
    \<and> flowDoc (renderSegments monoBackend creativeTheme ''Inter'' 15 (40 - 15)
          (parseInlineBold ''ab **cd**'') \<lparr>currentX = 15, currentY = 20, flowDoc = []\<rparr>)
        = specDoc (specSegments monoBackend creativeTheme ''Inter'' 15 (40 - 15)
            (parseInlineBold ''ab **cd**'') \<lparr>lineWords = [], lineY = 20, specDoc = []\<rparr>)
    \<and> currentY (renderSegments monoBackend creativeTheme ''Inter'' 15 (40 - 15)
          (parseInlineBold ''ab **cd**'') \<lparr>currentX = 15, currentY = 20, flowDoc = []\<rparr>)
        = lineY (specSegments monoBackend creativeTheme ''Inter'' 15 (40 - 15)
            (parseInlineBold ''ab **cd**'') \<lparr>lineWords = [], lineY = 20, specDoc = []\<rparr>)
    \<and> renderInlineBold monoBackend [] ''ab **cd**'' 15 20 creativeTheme 170 40 15 ''Inter''
        = (lineY (specSegments monoBackend creativeTheme ''Inter'' 15 (40 - 15)
             (parseInlineBold ''ab **cd**'') \<lparr>lineWords = [], lineY = 20, specDoc = []\<rparr>),
           specDoc (specSegments monoBackend creativeTheme ''Inter'' 15 (40 - 15)
             (parseInlineBold ''ab **cd**'') \<lparr>lineWords = [], lineY = 20, specDoc = []\<rparr>)))"
proof -
  have w: "\<forall>h t. 0 \<le> getTextWidth monoBackend h t"
    by (simp add: monoBackend_def)
  have x: "(15 :: real) \<le> 40 - 15"
    by simp
  note t = renderInlineBold_wraps[OF w x, where d = "[]" and th = creativeTheme
      and fam = "''Inter''" and segs = "parseInlineBold ''ab **cd**''" and y = 20
      and input = "''ab **cd**''" and maxWidth = 170]
  from w x t show ?thesis
    by blast
qed

section \<open>Properties of the composer\<close>

subsection \<open>Reading a document that grows\<close>

lemma scanFrom_append:
  "scanFrom G P st (ps @ qs) =
     (case scanFrom G P st ps of None \<Rightarrow> None | Some st' \<Rightarrow> scanFrom G P st' qs)"
  by (induction ps arbitrary: st) (auto split: option.splits)

lemma scanFrom_mono:
  assumes "\<And>c pos. G c pos \<Longrightarrow> G' c pos" and "\<And>g pos. P g pos \<Longrightarrow> P' g pos"
  shows "scanFrom G P st ps = Some st' \<Longrightarrow> scanFrom G' P' st ps = Some st'"
proof (induction ps arbitrary: st)
  case Nil
  then show ?case by simp
next
  case (Cons p ps)
  then obtain st1 where s1: "scanStep G P p st = Some st1" and r: "scanFrom G P st1 ps = Some st'"
    by (auto split: option.splits)
  from s1 have "scanStep G' P' p st = Some st1"
    by (cases p) (auto simp: scanText_def assms split: mark.splits option.splits if_splits)
  with Cons.IH[OF r] show ?case by simp
qed

lemma quiet_step:
  "quiet p \<Longrightarrow> \<exists>st'. scanStep G P p st = Some st' \<and> pendingGhost st' = pendingGhost st"
  by (cases p) (auto simp: scanText_def)

lemma quiet_scan:
  "list_all quiet ps \<Longrightarrow> \<exists>st'. scanFrom G P st ps = Some st' \<and> pendingGhost st' = pendingGhost st"
proof (induction ps arbitrary: st)
  case Nil
  show ?case by simp
next
  case (Cons p ps)
  then have "quiet p" and rest: "list_all quiet ps"
    by simp_all
  from quiet_step[OF \<open>quiet p\<close>, of G P st]
  obtain st1 where s1: "scanStep G P p st = Some st1" "pendingGhost st1 = pendingGhost st"
    by blast
  from Cons.IH[OF rest, of st1] s1 show ?case
    by auto
qed

lemma reading_append_quiet:
  "list_all quiet ps \<Longrightarrow> reading G P (s\<lparr>doc := doc s @ ps\<rparr>) = reading G P s"
proof -
  assume q: "list_all quiet ps"
  show ?thesis
  proof (cases "scanFrom G P \<lparr>inkColor = None, pendingGhost = None\<rparr> (doc s)")
    case None
    then show ?thesis by (simp add: reading_def scanFrom_append)
  next
    case (Some st)
    from quiet_scan[OF q, of G P st] Some show ?thesis
      by (auto simp: reading_def scanFrom_append)
  qed
qed

lemma reading_fails_on:
  "grows s s' \<Longrightarrow> reading G P s = None \<Longrightarrow> reading G P s' = None"
  by (auto simp: grows_def reading_def scanFrom_append)

subsection \<open>The reading after each call\<close>

lemma reading_emit [simp]: "quiet p \<Longrightarrow> reading G P (emit p s) = reading G P s"
  using reading_append_quiet[of "[p]" G P s] by (simp add: emit_def)

lemma reading_cursor [simp]: "reading G P (s\<lparr>cursorY := v\<rparr>) = reading G P s"
  by (simp add: reading_def)

lemma reading_advance [simp]: "reading G P (advance d s) = reading G P s"
  by (simp add: advance_def)

lemma reading_ghost [simp]:
  "reading G P (textAt Ghost tok x (emit (SetTextColor c) s)) =
     (case reading G P s of
        Some None \<Rightarrow> if G (Some c) (x, cursorY s) then Some (Some (x, cursorY s)) else None
      | _ \<Rightarrow> None)"
  by (cases "scanFrom G P \<lparr>inkColor = None, pendingGhost = None\<rparr> (doc s)")
     (auto simp: reading_def textAt_def emit_def scanFrom_append scanText_def
        split: option.splits)

lemma reading_text [simp]:
  "reading G P (textAt (Content k) str x s) = afterContent P (reading G P s) (x, cursorY s)"
  "reading G P (linesAt (Content k) strs x s) = afterContent P (reading G P s) (x, cursorY s)"
  "reading G P (textAlignedAt (Content k) str x align s) = afterContent P (reading G P s) (x, cursorY s)"
  by (cases "scanFrom G P \<lparr>inkColor = None, pendingGhost = None\<rparr> (doc s)";
      auto simp: reading_def textAt_def linesAt_def textAlignedAt_def emit_def scanFrom_append
        scanText_def afterContent_def split: option.splits)+

lemma reading_decoration [simp]: "reading G P (textAt Decoration str x s) = reading G P s"
  by (simp add: textAt_def)

lemma reading_lineAt [simp]: "reading G P (lineAt x1 x2 s) = reading G P s"
  by (simp add: lineAt_def)

lemma cursorY_steps [simp]:
  "cursorY (emit p s) = cursorY s"
  "cursorY (textAt mk str x s) = cursorY s"
  "cursorY (linesAt mk strs x s) = cursorY s"
  "cursorY (textAlignedAt mk str x align s) = cursorY s"
  "cursorY (lineAt x1 x2 s) = cursorY s"
  "cursorY (advance d s) = cursorY s + d"
  by (simp_all add: emit_def textAt_def linesAt_def textAlignedAt_def lineAt_def advance_def)

lemma afterContent_idle [simp]: "afterContent P (Some None) pos = Some None"
  by (simp add: afterContent_def)

lemma afterContent_baseline [simp]: "afterContent strictPair (Some (Some (x, y))) (x', y) = Some None"
  by (simp add: afterContent_def strictPair_def)

lemma reading_emitAll [simp]: "list_all quiet ps \<Longrightarrow> reading G P (emitAll ps s) = reading G P s"
  unfolding emitAll_def
  by (induction ps arbitrary: s) simp_all

lemma cursorY_emitAll [simp]: "cursorY (emitAll ps s) = cursorY s"
  unfolding emitAll_def
  by (induction ps arbitrary: s) simp_all

lemma quiet_diamond [simp]: "list_all quiet (diamondTriangles cx cy sz)"
  by (simp add: diamondTriangles_def petalTriangles_def)

lemma reading_check [simp]: "reading G P (snd (checkPageOverflow th r s)) = reading G P s"
  by (simp add: checkPageOverflow_def addNewPage_def)

lemma reading_compactBox [simp]: "reading G P (compactBox th fam str x s) = reading G P s"
  using reading_append_quiet[of _ G P s]
  by (simp add: compactBox_def drawCompactSectionBox_def Let_def)

lemma cursorY_compactBox [simp]: "cursorY (compactBox th fam str x s) = cursorY s"
  by (simp add: compactBox_def)

lemma drawPrefix_quiet [simp]:
  "reading G P (snd (drawPrefix env c prefix x s)) = reading G P s"
  "cursorY (snd (drawPrefix env c prefix x s)) = cursorY s"
  by (simp_all add: drawPrefix_def Let_def)

lemma headerPrefix_quiet [simp]:
  "reading G P (snd (headerPrefix env th s)) = reading G P s"
  "cursorY (snd (headerPrefix env th s)) = cursorY s"
  by (simp_all add: headerPrefix_def Let_def)

lemma headerBar_quiet [simp]: "reading G P (headerBar th img s) = reading G P s"
  by (simp add: headerBar_def Let_def split: option.splits)

lemma rules_quiet [simp]:
  "reading G P (classicRule th s) = reading G P s"
  "reading G P (compactRule th s) = reading G P s"
  by (simp_all add: classicRule_def compactRule_def Let_def)

lemma sectionBar_quiet [simp]:
  "reading G P (sectionBar th img s) = reading G P s"
  "cursorY (sectionBar th img s) = cursorY s"
  by (simp_all add: sectionBar_def Let_def split: option.splits)

lemma bulletShape_quiet [simp]:
  "reading G P (bulletShape th c s) = reading G P s"
  "cursorY (bulletShape th c s) = cursorY s"
  by (simp_all add: bulletShape_def)

lemma bulletText_reading [simp]:
  "reading G P (bulletText env th fam w bullet s) =
     afterContent P (reading G P s) (margin th + 10, cursorY s)"
  by (simp add: bulletText_def Let_def)

subsection \<open>The blocks of the composer keep the strict reading\<close>

lemma strictGhost_margin [simp]:
  "strictGhost th (Some (colors_bg (colors th))) (margin th, y)"
  by (simp add: strictGhost_def)

lemma headerName_reading [simp]:
  "reading G strictPair s = Some (Some (x, cursorY s)) \<Longrightarrow>
   reading G strictPair (headerName env th nm nameX s) = Some None"
  by (simp add: headerName_def Let_def)

lemma titleText_reading [simp]:
  "reading G strictPair s = Some (Some (x, cursorY s)) \<Longrightarrow>
   reading G strictPair (titleText env th fam title sectionX s) = Some None"
  by (simp add: titleText_def Let_def)

lemma headerContact_reading [simp]:
  "reading (strictGhost th) strictPair s = Some None \<Longrightarrow>
   reading (strictGhost th) strictPair (headerContact env th fam img contact s) = Some None"
  by (simp add: headerContact_def Let_def split_def)

lemma renderHeader_reading [simp]:
  "reading (strictGhost th) strictPair s = Some None \<Longrightarrow>
   reading (strictGhost th) strictPair (renderHeader env th fam img nm contact s) = Some None"
  by (simp add: renderHeader_def Let_def split_def split: option.splits)

lemma renderSummary_reading [simp]:
  "reading (strictGhost th) strictPair s = Some None \<Longrightarrow>
   reading (strictGhost th) strictPair (renderSummary env th fam str s) = Some None"
  by (simp add: renderSummary_def summaryText_def Let_def)

lemma sectionTitle_reading [simp]:
  "reading (strictGhost th) strictPair s = Some None \<Longrightarrow>
   reading (strictGhost th) strictPair (sectionTitle env th fam title s) = Some None"
  by (simp add: sectionTitle_def Let_def split_def)

lemma experienceTitle_reading [simp]:
  "reading (strictGhost th) strictPair s = Some None \<Longrightarrow>
   reading (strictGhost th) strictPair (experienceTitle env th fam title s) = Some None"
  by (simp add: experienceTitle_def Let_def split_def)

lemma renderBullet_reading [simp]:
  "reading (strictGhost th) strictPair s = Some None \<Longrightarrow>
   reading (strictGhost th) strictPair (renderBullet env th fam s bullet) = Some None"
  by (simp add: renderBullet_def Let_def)

lemma foldl_reading:
  "(\<And>s x. reading G P s = Some None \<Longrightarrow> reading G P (f s x) = Some None) \<Longrightarrow>
   reading G P s = Some None \<Longrightarrow> reading G P (foldl f s xs) = Some None"
  by (induction xs arbitrary: s) simp_all

lemma renderBulletSection_reading [simp]:
  "reading (strictGhost th) strictPair s = Some None \<Longrightarrow>
   reading (strictGhost th) strictPair (renderBulletSection env th fam img title bullets s) = Some None"
  by (simp add: renderBulletSection_def Let_def foldl_reading)

lemma jobCompany_reading [simp]:
  "reading (strictGhost th) strictPair s = Some None \<Longrightarrow>
   reading (strictGhost th) strictPair (jobCompany env th fam company s) = Some None"
  by (simp add: jobCompany_def Let_def split_def)

lemma roleTitle_reading [simp]:
  "reading G P s = Some None \<Longrightarrow> reading G P (roleTitle th title x s) = Some None"
  by (simp add: roleTitle_def split: option.splits)

lemma rolePeriod_reading [simp]:
  "reading G P s = Some None \<Longrightarrow> reading G P (rolePeriod th period s) = Some None"
  by (simp add: rolePeriod_def split: option.splits)

lemma roleMeta_reading [simp]:
  "reading G P s = Some None \<Longrightarrow> reading G P (roleMeta env th fam r s) = Some None"
  by (simp add: roleMeta_def Let_def split_def)

lemma renderRole_reading [simp]:
  "reading (strictGhost th) strictPair s = Some None \<Longrightarrow>
   reading (strictGhost th) strictPair (renderRole env th fam s r) = Some None"
  by (simp add: renderRole_def Let_def foldl_reading)

lemma renderJob_reading [simp]:
  "reading (strictGhost th) strictPair s = Some None \<Longrightarrow>
   reading (strictGhost th) strictPair (renderJob env th fam s j) = Some None"
  by (simp add: renderJob_def Let_def foldl_reading split: option.splits)

lemma renderExperience_reading [simp]:
  "reading (strictGhost th) strictPair s = Some None \<Longrightarrow>
   reading (strictGhost th) strictPair (renderExperience env th fam img title jobs s) = Some None"
  by (simp add: renderExperience_def Let_def foldl_reading)

lemma renderSection_reading:
  "reading (strictGhost th) strictPair s = Some None \<Longrightarrow>
   reading (strictGhost th) strictPair (renderSection env th fam himg simg s sec) = Some None"
  by (cases sec) simp_all

lemma quiet_fonts: "list_all quiet (registerFonts env)"
  by (simp add: registerFonts_def split: option.splits)

lemma startPage_reading: "reading G P (startPage env th) = Some None"
proof -
  have "reading G P \<lparr>cursorY = margin th, doc = registerFonts env\<rparr> = Some None"
    using reading_append_quiet[OF quiet_fonts, of G P "\<lparr>cursorY = margin th, doc = []\<rparr>" env]
    by (simp add: reading_def)
  then show ?thesis
    by (simp add: startPage_def Let_def)
qed

lemma generatePDF_reading:
  "reading (strictGhost th) strictPair (generatePDF env th sections) = Some None"
  by (simp add: generatePDF_def Let_def foldl_reading renderSection_reading startPage_reading)

lemma strict_accepted:
  "ghostsAccepted (strictGhost th) strictPair (doc (generatePDF env th sections))"
  using generatePDF_reading[of th env sections]
  by (auto simp: ghostsAccepted_def reading_def split: option.splits)

lemma ghostsAccepted_mono:
  assumes "\<And>c pos. G c pos \<Longrightarrow> G' c pos" and "\<And>g pos. P g pos \<Longrightarrow> P' g pos"
    and "ghostsAccepted G P ps"
  shows "ghostsAccepted G' P' ps"
proof -
  from assms(3) obtain st
    where st: "scanFrom G P \<lparr>inkColor = None, pendingGhost = None\<rparr> ps = Some st"
      "pendingGhost st = None"
    by (auto simp: ghostsAccepted_def split: option.splits)
  from scanFrom_mono[of G G' P P', OF assms(1,2) st(1)] st(2) show ?thesis
    by (simp add: ghostsAccepted_def)
qed

subsection \<open>The composer only adds calls\<close>

lemma grows_refl [simp]: "grows s s"
  by (simp add: grows_def)

lemma grows_trans: "grows s s' \<Longrightarrow> grows s' s'' \<Longrightarrow> grows s s''"
  by (auto simp: grows_def)

lemma grows_steps [simp]:
  "grows s0 s \<Longrightarrow> grows s0 (emit p s)"
  "grows s0 s \<Longrightarrow> grows s0 (advance d s)"
  "grows s0 s \<Longrightarrow> grows s0 (s\<lparr>cursorY := v\<rparr>)"
  "grows s0 s \<Longrightarrow> grows s0 (textAt mk str x s)"
  "grows s0 s \<Longrightarrow> grows s0 (linesAt mk strs x s)"
  "grows s0 s \<Longrightarrow> grows s0 (textAlignedAt mk str x align s)"
  "grows s0 s \<Longrightarrow> grows s0 (lineAt x1 x2 s)"
  by (auto simp: grows_def emit_def advance_def textAt_def linesAt_def textAlignedAt_def lineAt_def)

lemma grows_emitAll [simp]: "grows s0 s \<Longrightarrow> grows s0 (emitAll ps s)"
  unfolding emitAll_def
  by (induction ps arbitrary: s) simp_all

lemma grows_check [simp]: "grows s0 s \<Longrightarrow> grows s0 (snd (checkPageOverflow th r s))"
  by (simp add: checkPageOverflow_def addNewPage_def Let_def)

lemma grows_compactBox [simp]: "grows s0 s \<Longrightarrow> grows s0 (compactBox th fam str x s)"
  by (auto simp: grows_def compactBox_def drawCompactSectionBox_def Let_def)

lemma grows_drawPrefix [simp]: "grows s0 s \<Longrightarrow> grows s0 (snd (drawPrefix env c prefix x s))"
  by (simp add: drawPrefix_def Let_def)

lemma grows_sectionBar [simp]: "grows s0 s \<Longrightarrow> grows s0 (sectionBar th img s)"
  by (simp add: sectionBar_def Let_def split: option.splits)

lemma grows_titleText [simp]: "grows s0 s \<Longrightarrow> grows s0 (titleText env th fam title x s)"
  by (simp add: titleText_def Let_def)

lemma grows_sectionTitle [simp]: "grows s0 s \<Longrightarrow> grows s0 (sectionTitle env th fam title s)"
  by (simp add: sectionTitle_def Let_def split_def)

lemma grows_experienceTitle [simp]:
  "grows s0 s \<Longrightarrow> grows s0 (experienceTitle env th fam title s)"
  by (simp add: experienceTitle_def Let_def split_def)

lemma grows_bulletShape [simp]: "grows s0 s \<Longrightarrow> grows s0 (bulletShape th c s)"
  by (simp add: bulletShape_def)

lemma grows_bulletText [simp]: "grows s0 s \<Longrightarrow> grows s0 (bulletText env th fam w bullet s)"
  by (simp add: bulletText_def Let_def)

lemma grows_renderBullet [simp]: "grows s0 s \<Longrightarrow> grows s0 (renderBullet env th fam s bullet)"
  by (simp add: renderBullet_def Let_def)

lemma grows_foldl:
  "(\<And>s x. grows s0 s \<Longrightarrow> grows s0 (f s x)) \<Longrightarrow> grows s0 s \<Longrightarrow> grows s0 (foldl f s xs)"
  by (induction xs arbitrary: s) simp_all

lemma grows_summaryText [simp]: "grows s0 s \<Longrightarrow> grows s0 (summaryText env th str s)"
  by (simp add: summaryText_def Let_def)

lemma grows_jobCompany [simp]: "grows s0 s \<Longrightarrow> grows s0 (jobCompany env th fam company s)"
  by (simp add: jobCompany_def Let_def split_def)

lemma grows_roleMeta [simp]: "grows s0 s \<Longrightarrow> grows s0 (roleMeta env th fam r s)"
  by (simp add: roleMeta_def roleTitle_def rolePeriod_def Let_def split_def split: option.splits)

lemma grows_renderRole [simp]: "grows s0 s \<Longrightarrow> grows s0 (renderRole env th fam s r)"
  by (simp add: renderRole_def Let_def grows_foldl)

lemma grows_renderJob [simp]: "grows s0 s \<Longrightarrow> grows s0 (renderJob env th fam s j)"
  by (simp add: renderJob_def Let_def grows_foldl split: option.splits)

lemma grows_header [simp]:
  "grows s0 s \<Longrightarrow> grows s0 (snd (headerPrefix env th s))"
  "grows s0 s \<Longrightarrow> grows s0 (headerName env th nm x s)"
  "grows s0 s \<Longrightarrow> grows s0 (headerBar th img s)"
  "grows s0 s \<Longrightarrow> grows s0 (classicRule th s)"
  "grows s0 s \<Longrightarrow> grows s0 (compactRule th s)"
  by (simp_all add: headerPrefix_def headerName_def headerBar_def classicRule_def compactRule_def
      Let_def split: option.splits)

lemma grows_headerContact [simp]:
  "grows s0 s \<Longrightarrow> grows s0 (headerContact env th fam img contact s)"
  by (simp add: headerContact_def Let_def split_def)

subsection \<open>The header never breaks the page\<close>

lemma pageIndex_steps [simp]:
  "pageIndex (emit p s) = (if p = AddPage then Suc (pageIndex s) else pageIndex s)"
  "pageIndex (advance d s) = pageIndex s"
  "pageIndex (textAt mk str x s) = pageIndex s"
  "pageIndex (lineAt x1 x2 s) = pageIndex s"
  by (simp_all add: pageIndex_def emit_def advance_def textAt_def lineAt_def)

lemma pageIndex_drawPrefix [simp]: "pageIndex (snd (drawPrefix env c prefix x s)) = pageIndex s"
  by (simp add: drawPrefix_def Let_def)

lemma pageIndex_headerPrefix [simp]: "pageIndex (snd (headerPrefix env th s)) = pageIndex s"
  by (simp add: headerPrefix_def Let_def)

lemma pageIndex_headerName [simp]: "pageIndex (headerName env th nm x s) = pageIndex s"
  by (simp add: headerName_def Let_def)

lemma pageIndex_headerBar [simp]: "pageIndex (headerBar th img s) = pageIndex s"
  by (simp add: headerBar_def Let_def split: option.splits)

lemma pageIndex_headerContact [simp]:
  "pageIndex (headerContact env th fam img contact s) = pageIndex s"
  by (simp add: headerContact_def Let_def split_def)

lemma pageIndex_rules [simp]:
  "pageIndex (classicRule th s) = pageIndex s"
  "pageIndex (compactRule th s) = pageIndex s"
  by (simp_all add: classicRule_def compactRule_def Let_def)

lemma pageIndex_renderHeader:
  "pageIndex (renderHeader env th fam img nm contact s) = pageIndex s"
  by (simp add: renderHeader_def Let_def split_def split: option.splits)

subsection \<open>The marks after each call\<close>

lemma markScan_append:
  "markScan m F w (ps @ qs) =
     (case markScan m F w ps of None \<Rightarrow> None | Some w' \<Rightarrow> markScan m F w' qs)"
  by (induction ps arbitrary: w) (auto split: option.splits)

lemma silent_scan: "list_all silent ps \<Longrightarrow> markScan m F w ps = Some w"
proof (induction ps)
  case Nil
  show ?case by simp
next
  case (Cons p ps)
  then have "markStep m F p w = Some w"
    by (cases p) simp_all
  with Cons show ?case by simp
qed

lemma marks_append_silent:
  "list_all silent ps \<Longrightarrow> marks m F (s\<lparr>doc := doc s @ ps\<rparr>) = marks m F s"
  by (simp add: marks_def markScan_append silent_scan split: option.splits)


lemma marks_emit [simp]:
  "marks m F (emit p s) = (case marks m F s of None \<Rightarrow> None | Some w \<Rightarrow> markStep m F p w)"
  by (simp add: marks_def emit_def markScan_append split: option.splits)

lemma marks_cursor [simp]: "marks m F (s\<lparr>cursorY := v\<rparr>) = marks m F s"
  by (simp add: marks_def)

lemma marks_advance [simp]: "marks m F (advance d s) = marks m F s"
  by (simp add: advance_def)

lemma marks_emitAll [simp]: "list_all silent ps \<Longrightarrow> marks m F (emitAll ps s) = marks m F s"
proof -
  have "emitAll ps s = s\<lparr>doc := doc s @ ps\<rparr>"
    unfolding emitAll_def by (induction ps arbitrary: s) (simp_all add: emit_def)
  then show "list_all silent ps \<Longrightarrow> marks m F (emitAll ps s) = marks m F s"
    by (simp add: marks_append_silent)
qed

lemma silent_diamond [simp]: "list_all silent (diamondTriangles cx cy sz)"
  by (simp add: diamondTriangles_def petalTriangles_def)

lemma marks_check [simp]: "marks m F (snd (checkPageOverflow th r s)) = marks m F s"
  by (simp add: checkPageOverflow_def addNewPage_def split: option.splits)

lemma marks_compactBox [simp]: "marks m F (compactBox th fam str x s) = marks m F s"
  using marks_append_silent[of _ m F s]
  by (simp add: compactBox_def drawCompactSectionBox_def Let_def)

lemma marks_headerBar [simp]: "marks m F (headerBar th img s) = marks m F s"
  by (simp add: headerBar_def Let_def split: option.splits)

lemma marks_rules [simp]:
  "marks m F (classicRule th s) = marks m F s"
  "marks m F (compactRule th s) = marks m F s"
  by (simp_all add: classicRule_def compactRule_def Let_def lineAt_def split: option.splits)

lemma marks_sectionBar [simp]: "marks m F (sectionBar th img s) = marks m F s"
  by (simp add: sectionBar_def Let_def split: option.splits)

subsection \<open>The blocks of the composer mark their content\<close>

lemmas mark_steps =
  textAt_def linesAt_def textAlignedAt_def markGhost_def markDecoration_def markContent_def
  markVisible_def firstPlace_def

lemma renderHeader_marks [simp]:
  "marks (margin th) (firstPlace th) s = Some None \<Longrightarrow>
   marks (margin th) (firstPlace th) (renderHeader env th fam img nm contact s) = Some None"
  by (simp add: renderHeader_def headerPrefix_def headerName_def headerContact_def drawPrefix_def
      Let_def mark_steps split: option.splits)

lemma renderSummary_marks [simp]:
  "marks m F s = Some None \<Longrightarrow> marks m F (renderSummary env th fam str s) = Some None"
  by (simp add: renderSummary_def summaryText_def Let_def mark_steps)

lemma sectionTitle_marks [simp]:
  "marks (margin th) (firstPlace th) s = Some None \<Longrightarrow>
   marks (margin th) (firstPlace th) (sectionTitle env th fam title s) = Some None"
  by (simp add: sectionTitle_def titleText_def drawPrefix_def Let_def mark_steps)

lemma experienceTitle_marks [simp]:
  "marks (margin th) (firstPlace th) s = Some None \<Longrightarrow>
   marks (margin th) (firstPlace th) (experienceTitle env th fam title s) = Some None"
  by (simp add: experienceTitle_def titleText_def drawPrefix_def Let_def mark_steps)

lemma renderBullet_marks [simp]:
  "marks (margin th) (firstPlace th) s = Some None \<Longrightarrow>
   marks (margin th) (firstPlace th) (renderBullet env th fam s bullet) = Some None"
  by (simp add: renderBullet_def bulletShape_def bulletText_def Let_def mark_steps)

lemma foldl_marks:
  "(\<And>s x. marks m F s = Some None \<Longrightarrow> marks m F (f s x) = Some None) \<Longrightarrow>
   marks m F s = Some None \<Longrightarrow> marks m F (foldl f s xs) = Some None"
  by (induction xs arbitrary: s) simp_all

lemma renderBulletSection_marks [simp]:
  "marks (margin th) (firstPlace th) s = Some None \<Longrightarrow>
   marks (margin th) (firstPlace th) (renderBulletSection env th fam img title bullets s) = Some None"
  by (simp add: renderBulletSection_def Let_def foldl_marks)

lemma jobCompany_marks [simp]:
  "marks (margin th) (firstPlace th) s = Some None \<Longrightarrow>
   marks (margin th) (firstPlace th) (jobCompany env th fam company s) = Some None"
  by (simp add: jobCompany_def drawPrefix_def Let_def mark_steps)

lemma roleMeta_marks [simp]:
  "marks m F s = Some None \<Longrightarrow> marks m F (roleMeta env th fam r s) = Some None"
  by (simp add: roleMeta_def roleTitle_def rolePeriod_def drawPrefix_def Let_def mark_steps
      split: option.splits)

lemma renderRole_marks [simp]:
  "marks (margin th) (firstPlace th) s = Some None \<Longrightarrow>
   marks (margin th) (firstPlace th) (renderRole env th fam s r) = Some None"
  by (simp add: renderRole_def Let_def foldl_marks)

lemma renderJob_marks [simp]:
  "marks (margin th) (firstPlace th) s = Some None \<Longrightarrow>
   marks (margin th) (firstPlace th) (renderJob env th fam s j) = Some None"
  by (simp add: renderJob_def Let_def foldl_marks split: option.splits)

lemma renderExperience_marks [simp]:
  "marks (margin th) (firstPlace th) s = Some None \<Longrightarrow>
   marks (margin th) (firstPlace th) (renderExperience env th fam img title jobs s) = Some None"
  by (simp add: renderExperience_def Let_def foldl_marks)




subsection \<open>Where the first visible text stands apart from its marker\<close>





subsection \<open>The ghost tags\<close>

text \<open>
  C8: in the calls of every run of the composer, a content text follows each ghost marker
  before the next marker and before the end, so each marker is emitted strictly before
  the content it annotates; and the text colour in effect where a marker is emitted is
  the background colour of the theme.
\<close>

theorem ghost_markers_hidden:
  "ghostsHidden (colors_bg (colors th)) (doc (generatePDF env th sections))"
  unfolding ghostsHidden_def
  by (rule ghostsAccepted_mono[OF _ _ strict_accepted]) (simp_all add: strictGhost_def)



subsection \<open>The cursor and the page index through a bullet section\<close>

lemma splitLines_nonempty: "splitLines str \<noteq> []"
  by (induction str) (auto split: list.splits)

lemma length_splitLines_lines:
  "length (splitLines (concat (replicate n [CHR ''x'', CHR 0x0A]) @ rest)) =
     n + length (splitLines rest)"
proof (induction n)
  case 0
  show ?case by simp
next
  case (Suc n)
  have ne: "CHR ''x'' \<noteq> CHR 0x0A"
    by simp
  obtain w ws where "splitLines (CHR 0x0A #
      concat (replicate n [CHR ''x'', CHR 0x0A]) @ rest) = w # ws"
    using splitLines_nonempty by (metis list.exhaust)
  with Suc ne show ?case
    by (auto split: list.splits)
qed

lemma tallBullet_lines: "length (splitLines tallBullet) = 60"
  using length_splitLines_lines[of 59 "''x''"]
  by (simp add: tallBullet_def)

lemma cursorY_check [simp]:
  "cursorY (snd (checkPageOverflow th r s)) =
     (if cursorY s + r > pageHeight - margin th then margin th else cursorY s)"
  by (simp add: checkPageOverflow_def addNewPage_def)

lemma pageIndex_cursor [simp]: "pageIndex (s\<lparr>cursorY := v\<rparr>) = pageIndex s"
  by (simp add: pageIndex_def)

lemma pageIndex_check [simp]:
  "pageIndex (snd (checkPageOverflow th r s)) =
     (if cursorY s + r > pageHeight - margin th then Suc (pageIndex s) else pageIndex s)"
  by (simp add: checkPageOverflow_def addNewPage_def Let_def)

lemma pageIndex_more [simp]:
  "pageIndex (linesAt mk strs x s) = pageIndex s"
  "pageIndex (compactBox th fam str x s) = pageIndex s"
  "pageIndex (sectionBar th img s) = pageIndex s"
  by (simp_all add: linesAt_def pageIndex_def emit_def compactBox_def drawCompactSectionBox_def
      sectionBar_def Let_def split: option.splits)

lemma pageIndex_emitAll [simp]:
  "list_all (\<lambda>p. p \<noteq> AddPage) ps \<Longrightarrow> pageIndex (emitAll ps s) = pageIndex s"
  unfolding emitAll_def
  by (induction ps arbitrary: s) simp_all

lemma diamond_no_page [simp]: "list_all (\<lambda>p. p \<noteq> AddPage) (diamondTriangles cx cy sz)"
  by (simp add: diamondTriangles_def petalTriangles_def)

lemma sectionTitle_cursor [simp]:
  "cursorY (sectionTitle env th fam title s) =
     cursorY s + pt th (fonts_h2 (fonts th)) + px th (spacing_h2MarginBottom (spacing th))"
  "pageIndex (sectionTitle env th fam title s) = pageIndex s"
  by (simp_all add: sectionTitle_def titleText_def Let_def split_def)

lemma renderBullet_cursor [simp]:
  "cursorY (renderBullet lineBackend th fam s bullet) =
     cursorY (snd (checkPageOverflow th 15 s))
       + real (length (splitLines bullet))
           * lineHeight th (fonts_li (fonts th)) (lineHeights_li (lineHeights th))
       + px th (spacing_liMarginBottom (spacing th))"
  "pageIndex (renderBullet env th fam s bullet) = pageIndex (snd (checkPageOverflow th 15 s))"
  by (simp_all add: renderBullet_def bulletShape_def bulletText_def Let_def lineBackend_def
      del: cursorY_check pageIndex_check)

lemma renderSummary_pages:
  "pageIndex (renderSummary env th fam str s) = pageIndex (snd (checkPageOverflow th 30 s))"
  by (simp add: renderSummary_def summaryText_def Let_def del: pageIndex_check)

lemma startPage_cursor:
  "cursorY (startPage env th) = margin th"
  "pageIndex (startPage env th) = 0"
  by (simp_all add: startPage_def Let_def pageIndex_def registerFonts_def emit_def
      split: option.splits)

lemma tall_section_cursor:
  "cursorY (renderBulletSection lineBackend creativeTheme fam img ''Skills'' [tallBullet]
      (startPage lineBackend creativeTheme)) = 423301 / 1440"
  by (simp add: renderBulletSection_def Let_def startPage_cursor tallBullet_lines
      creativeTheme_def pageHeight_def px_def pt_def lineHeight_def PX_TO_MM_def PT_TO_MM_def)

lemma tall_section_pages:
  "pageIndex (renderBulletSection lineBackend creativeTheme fam img ''Skills'' [tallBullet]
      (startPage lineBackend creativeTheme)) = 0"
  by (simp add: renderBulletSection_def Let_def startPage_cursor
      creativeTheme_def pageHeight_def px_def pt_def lineHeight_def PX_TO_MM_def PT_TO_MM_def)

lemma drawn_stays: "grows s s' \<Longrightarrow> p \<in> set (doc s) \<Longrightarrow> p \<in> set (doc s')"
  by (auto simp: grows_def)

lemma header_marker_drawn:
  "Text Ghost ''# '' (margin th) (cursorY s) \<in> set (doc (renderHeader env th fam img nm contact s))"
proof -
  let ?g = "textAt Ghost ''# '' (margin th)
      (emit (SetTextColor (colors_bg (colors th)))
         (emit (SetFont fam ''bold'') (emit (SetFontSize (fonts_h1 (fonts th))) s)))"
  have "grows ?g (renderHeader env th fam img nm contact s)"
    by (simp add: renderHeader_def Let_def split_def split: option.splits)
  moreover have "Text Ghost ''# '' (margin th) (cursorY s) \<in> set (doc ?g)"
    by (simp add: textAt_def emit_def)
  ultimately show ?thesis by (rule drawn_stays)
qed

lemma headerName_cursor [simp]: "cursorY (headerName env th nm x s) = cursorY s"
  by (simp add: headerName_def Let_def)

lemma contact_marker_drawn:
  assumes "contact \<noteq> []"
  shows "Text Ghost ''**Contact:** '' (margin th)
      (cursorY s + pt th (fonts_h1 (fonts th)) + px th (spacing_h1MarginBottom (spacing th)))
    \<in> set (doc (renderHeader env th fam img nm (Some contact) s))"
proof -
  let ?hp = "headerPrefix env th (textAt Ghost ''# '' (margin th)
      (emit (SetTextColor (colors_bg (colors th)))
         (emit (SetFont fam ''bold'') (emit (SetFontSize (fonts_h1 (fonts th))) s))))"
  let ?n = "advance (px th (spacing_h1MarginBottom (spacing th)))
      (advance (pt th (fonts_h1 (fonts th))) (headerName env th nm (fst ?hp) (snd ?hp)))"
  let ?g = "textAt Ghost ''**Contact:** '' (margin th)
      (emit (SetTextColor (colors_bg (colors th)))
         (emit (SetFont fam ''normal'') (emit (SetFontSize (fonts_subHeader (fonts th))) ?n)))"
  have "grows ?g (renderHeader env th fam img nm (Some contact) s)"
    using assms by (simp add: renderHeader_def headerContact_def Let_def split_def)
  moreover have "Text Ghost ''**Contact:** '' (margin th)
      (cursorY s + pt th (fonts_h1 (fonts th)) + px th (spacing_h1MarginBottom (spacing th)))
    \<in> set (doc ?g)"
    by (simp add: textAt_def emit_def)
  ultimately show ?thesis by (rule drawn_stays)
qed

subsection \<open>The overflow check of a section\<close>

text \<open>
  C3 does not hold of the header: the summary, the bullet section and the experience
  section start with \<^verbatim>\<open>checkPageOverflow(30)\<close>, the header branch has no such call.
  In the run on a section with a bullet of sixty lines followed by a header, the marker
  and the name of the header are drawn below the bottom margin and its contact line below
  the page, and no page is added; with a summary in the place of the header, the page is
  broken.
\<close>

theorem header_drawn_past_bottom_margin:
  "Text Ghost ''# '' 15 (423301 / 1440)
     \<in> set (doc (generatePDF lineBackend creativeTheme lateHeaderDocument))
   \<and> (423301 / 1440 :: real) > pageHeight - margin creativeTheme
   \<and> Text Ghost ''**Contact:** '' 15 (436001 / 1440)
     \<in> set (doc (generatePDF lineBackend creativeTheme lateHeaderDocument))
   \<and> (436001 / 1440 :: real) > pageHeight
   \<and> pageIndex (generatePDF lineBackend creativeTheme lateHeaderDocument) = 0
   \<and> pageIndex (generatePDF lineBackend creativeTheme lateSummaryDocument) = 1"
proof -
  let ?fam = "orElse (themeFonts (name creativeTheme)) ''Inter''"
  let ?himg = "loadBar lineBackend creativeTheme images_headerBar"
  let ?simg = "loadBar lineBackend creativeTheme images_sectionBar"
  let ?s = "renderBulletSection lineBackend creativeTheme ?fam ?simg ''Skills'' [tallBullet]
      (startPage lineBackend creativeTheme)"
  have run: "generatePDF lineBackend creativeTheme lateHeaderDocument =
      emit (Save ''resume.pdf'')
        (renderHeader lineBackend creativeTheme ?fam ?himg ''Jane Doe'' (Some ''jane@x.com'') ?s)"
    by (simp add: generatePDF_def lateHeaderDocument_def Let_def)
  have run2: "generatePDF lineBackend creativeTheme lateSummaryDocument =
      emit (Save ''resume.pdf'') (renderSummary lineBackend creativeTheme ?fam ''Engineer'' ?s)"
    by (simp add: generatePDF_def lateSummaryDocument_def Let_def)
  have y: "cursorY ?s = 423301 / 1440"
    by (rule tall_section_cursor)
  have p: "pageIndex ?s = 0"
    by (rule tall_section_pages)
  have m: "margin creativeTheme = 15"
    by (simp add: creativeTheme_def)
  have y1: "(423301 / 1440 :: real) + pt creativeTheme (fonts_h1 (fonts creativeTheme))
      + px creativeTheme (spacing_h1MarginBottom (spacing creativeTheme)) = 436001 / 1440"
    by (simp add: creativeTheme_def pt_def px_def PT_TO_MM_def PX_TO_MM_def)
  from header_marker_drawn[of creativeTheme ?s lineBackend ?fam ?himg "''Jane Doe''"
      "Some ''jane@x.com''"]
  have "Text Ghost ''# '' 15 (423301 / 1440)
      \<in> set (doc (generatePDF lineBackend creativeTheme lateHeaderDocument))"
    unfolding run y m by (simp add: emit_def)
  moreover have "(423301 / 1440 :: real) > pageHeight - margin creativeTheme"
    by (simp add: pageHeight_def m)
  moreover from contact_marker_drawn[of "''jane@x.com''" creativeTheme ?s lineBackend ?fam ?himg
      "''Jane Doe''"]
  have "Text Ghost ''**Contact:** '' 15 (436001 / 1440)
      \<in> set (doc (generatePDF lineBackend creativeTheme lateHeaderDocument))"
    unfolding run y m y1 by (simp add: emit_def)
  moreover have "(436001 / 1440 :: real) > pageHeight"
    by (simp add: pageHeight_def)
  moreover have "pageIndex (generatePDF lineBackend creativeTheme lateHeaderDocument) = 0"
    unfolding run by (simp add: pageIndex_renderHeader p)
  moreover have "pageIndex (generatePDF lineBackend creativeTheme lateSummaryDocument) = 1"
    unfolding run2 by (simp add: renderSummary_pages y p pageHeight_def m)
  ultimately show ?thesis by simp
qed

end
